theory Spec2Isabelle
  imports Main "HOL-Library.Word"
begin

section \<open>Go values used by the provider\<close>

text \<open>
  Go's \<^verbatim>\<open>int64\<close> is a 64-bit word read in two's complement; a Go string is a byte
  string. A slice is \<open>None\<close> when it is nil, which \<^verbatim>\<open>encoding/json\<close> tells apart from
  an empty one.
\<close>

type_synonym int64 = "64 word"

type_synonym 'a slice = "'a list option"

fun elems :: "'a slice \<Rightarrow> 'a list" where
  "elems None = []"
| "elems (Some xs) = xs"

text \<open>
  A call either returns or panics; the only panic of this program is the dereference
  of a nil pointer.
\<close>

datatype 'a exec = Panic | Return 'a

subsection \<open>\<^verbatim>\<open>strconv\<close>\<close>

datatype num_err = ErrSyntax | ErrRange

definition is_digit :: "char \<Rightarrow> bool" where
  "is_digit c = (48 \<le> (of_char c :: nat) \<and> (of_char c :: nat) \<le> 57)"

definition digit_val :: "char \<Rightarrow> nat" where
  "digit_val c = (of_char c :: nat) - 48"

definition maxUint64 :: nat where
  "maxUint64 = 18446744073709551615"

text \<open>
  The loop of \<^verbatim>\<open>strconv.ParseUint(s, 10, 64)\<close>: a byte that is not a decimal digit is
  a syntax error; \<open>n \<ge> cutoff\<close> means that \<open>n * 10\<close> overflows, and \<open>n1 > maxUint64\<close>
  that adding the digit does (Go sees the wrapped sum \<open>n1 < n\<close>).
\<close>

fun ParseUint_loop :: "nat \<Rightarrow> string \<Rightarrow> num_err + nat" where
  "ParseUint_loop n [] = Inr n"
| "ParseUint_loop n (c # cs) =
     (if \<not> is_digit c then Inl ErrSyntax
      else if n \<ge> maxUint64 div 10 + 1 then Inl ErrRange
      else if n * 10 + digit_val c > maxUint64 then Inl ErrRange
      else ParseUint_loop (n * 10 + digit_val c) cs)"

definition ParseUint :: "string \<Rightarrow> num_err + nat" where
  "ParseUint s = (if s = [] then Inl ErrSyntax else ParseUint_loop 0 s)"

text \<open>\<^verbatim>\<open>strconv.ParseInt(s, 10, 64)\<close>: an optional sign, then \<^verbatim>\<open>ParseUint\<close>, then the range.\<close>

definition ParseInt :: "string \<Rightarrow> num_err + int64" where
  "ParseInt s0 =
     (if s0 = [] then Inl ErrSyntax
      else
        let neg = (hd s0 = CHR ''-'');
            s = (if hd s0 = CHR ''+'' \<or> hd s0 = CHR ''-'' then tl s0 else s0)
        in case ParseUint s of
             Inl e \<Rightarrow> Inl e
           | Inr un \<Rightarrow>
               if \<not> neg \<and> un \<ge> 2 ^ 63 then Inl ErrRange
               else if neg \<and> un > 2 ^ 63 then Inl ErrRange
               else Inr (if neg then - (word_of_nat un) else word_of_nat un))"

text \<open>\<^verbatim>\<open>strconv.FormatInt(i, 10)\<close>.\<close>

definition digit_char :: "nat \<Rightarrow> char" where
  "digit_char d = ''0123456789'' ! d"

fun format_nat :: "nat \<Rightarrow> string" where
  "format_nat n =
     (if n < 10 then [digit_char n]
      else format_nat (n div 10) @ [digit_char (n mod 10)])"

declare format_nat.simps [simp del]

definition FormatInt :: "int64 \<Rightarrow> string" where
  "FormatInt i =
     (if sint i < 0 then CHR ''-'' # format_nat (nat (- sint i))
      else format_nat (nat (sint i)))"

text \<open>
  The text of a \<^verbatim>\<open>*strconv.NumError\<close> of \<^verbatim>\<open>ParseInt\<close>; \<open>quote\<close> stands for
  \<^verbatim>\<open>strconv.Quote\<close>.
\<close>

definition NumError_Error :: "(string \<Rightarrow> string) \<Rightarrow> string \<Rightarrow> num_err \<Rightarrow> string" where
  "NumError_Error quote s e =
     ''strconv.ParseInt: parsing '' @ quote s @ '': '' @
     (case e of ErrSyntax \<Rightarrow> ''invalid syntax'' | ErrRange \<Rightarrow> ''value out of range'')"

subsection \<open>\<^verbatim>\<open>encoding/json\<close>\<close>

text \<open>
  A JSON text as the value it denotes. A number keeps its literal, as Go's decoder
  does; an object keeps its members in order, duplicates included.
\<close>

datatype json =
    JNull
  | JBool bool
  | JNumber string
  | JString string
  | JArray "json list"
  | JObject "(string \<times> json) list"

text \<open>
  What the program takes from its libraries and from the network:
  \<^item> \<open>url_error\<close>: the error of \<^verbatim>\<open>http.NewRequest\<close> for a URL that does not parse
    (the methods used here are all valid);
  \<^item> \<open>Do\<close>: one round trip of \<^verbatim>\<open>http.Client.Do\<close>, a transport error or the response;
    \<open>RespBody\<close> is the bytes that reading the body yields, which is what both
    \<^verbatim>\<open>io.ReadAll\<close> (its error is dropped by the code) and the decoder see;
  \<^item> \<open>json_read\<close>: the first JSON value that \<^verbatim>\<open>json.Decoder\<close> reads from a body, or
    its syntax error;
  \<^item> \<open>foldName\<close>: the case folding under which \<^verbatim>\<open>encoding/json\<close> matches an object
    key with a field name when no field has the key's exact name;
  \<^item> \<open>UnmarshalTypeError\<close>: the text of the decoder's error for a JSON value (the
    first argument describes it) that does not fit a Go type (the second);
  \<^item> \<open>Quote\<close>: \<^verbatim>\<open>strconv.Quote\<close>.
\<close>

record http_request =
  Method :: string
  URL :: string
  BasicAuth :: "(string \<times> string) option"
  ContentType :: "string option"
  Body :: "json option"

record http_response =
  StatusCode :: int
  RespBody :: string

record lib =
  url_error :: "string \<Rightarrow> string option"
  Do :: "http_request \<Rightarrow> string + http_response"
  json_read :: "string \<Rightarrow> string + json"
  foldName :: "string \<Rightarrow> string"
  UnmarshalTypeError :: "string \<Rightarrow> string \<Rightarrow> string"
  Quote :: "string \<Rightarrow> string"

text \<open>
  The field of a struct that a key of a JSON object decodes into: the field with the
  key's exact name, otherwise the first field whose folded name is the key's.
\<close>

definition match_field :: "lib \<Rightarrow> string list \<Rightarrow> string \<Rightarrow> string option" where
  "match_field l names key =
     (if key \<in> set names then Some key
      else find (\<lambda>n. foldName l n = foldName l key) names)"

text \<open>
  Decoding a JSON value into a Go variable that holds \<open>old\<close>. \<^verbatim>\<open>null\<close> leaves a
  string, an integer or a struct as it is and makes a slice nil; a value of the wrong
  kind is an \<^verbatim>\<open>UnmarshalTypeError\<close>. The elements of an array are decoded into the
  elements of a fresh slice, as they are the first time a field is met.
\<close>

fun json_kind :: "json \<Rightarrow> string" where
  "json_kind JNull = ''null''"
| "json_kind (JBool _) = ''bool''"
| "json_kind (JNumber n) = ''number '' @ n"
| "json_kind (JString _) = ''string''"
| "json_kind (JArray _) = ''array''"
| "json_kind (JObject _) = ''object''"

fun decode_string :: "lib \<Rightarrow> json \<Rightarrow> string \<Rightarrow> string + string" where
  "decode_string l JNull old = Inr old"
| "decode_string l (JString s) old = Inr s"
| "decode_string l v old = Inl (UnmarshalTypeError l (json_kind v) ''string'')"

fun decode_int64 :: "lib \<Rightarrow> json \<Rightarrow> int64 \<Rightarrow> string + int64" where
  "decode_int64 l JNull old = Inr old"
| "decode_int64 l (JNumber n) old =
     (case ParseInt n of
        Inl e \<Rightarrow> Inl (UnmarshalTypeError l (''number '' @ n) ''int64'')
      | Inr i \<Rightarrow> Inr i)"
| "decode_int64 l v old = Inl (UnmarshalTypeError l (json_kind v) ''int64'')"

fun decode_string_elems :: "lib \<Rightarrow> json list \<Rightarrow> string + string list" where
  "decode_string_elems l [] = Inr []"
| "decode_string_elems l (v # vs) =
     (case decode_string l v [] of
        Inl e \<Rightarrow> Inl e
      | Inr s \<Rightarrow>
          (case decode_string_elems l vs of
             Inl e \<Rightarrow> Inl e
           | Inr ss \<Rightarrow> Inr (s # ss)))"

fun decode_string_slice :: "lib \<Rightarrow> json \<Rightarrow> string slice \<Rightarrow> string + string slice" where
  "decode_string_slice l JNull old = Inr None"
| "decode_string_slice l (JArray vs) old =
     (case decode_string_elems l vs of
        Inl e \<Rightarrow> Inl e
      | Inr ss \<Rightarrow> Inr (Some ss))"
| "decode_string_slice l v old = Inl (UnmarshalTypeError l (json_kind v) ''[]string'')"

section \<open>The API client (\<^verbatim>\<open>internal/provider/client.go\<close>)\<close>

text \<open>
  The \<^verbatim>\<open>http\<close> field of \<^verbatim>\<open>Client\<close> is left out: \<^verbatim>\<open>NewClient\<close> always sets it to a
  fresh \<^verbatim>\<open>http.Client\<close>, whose \<^verbatim>\<open>Do\<close> is the \<open>Do\<close> of \<open>lib\<close>.
\<close>

record Client =
  subdomain :: string
  email :: string
  apiToken :: string

record OAuthClient =
  ID :: int64
  Name :: string
  Identifier :: string
  Kind :: string
  Description :: string

record OAuthToken =
  ID :: int64
  ClientID :: int64
  UserID :: int64
  Scopes :: "string slice"
  FullToken :: string
  ExpiresAt :: string

definition NewClient :: "string \<Rightarrow> string \<Rightarrow> string \<Rightarrow> Client" where
  "NewClient sd em tok = \<lparr>subdomain = sd, email = em, apiToken = tok\<rparr>"

text \<open>The zero values that \<^verbatim>\<open>var result\<close> and an omitted field of a literal hold.\<close>

definition zero_OAuthClient :: OAuthClient where
  "zero_OAuthClient = \<lparr>OAuthClient.ID = 0, Name = [], Identifier = [], Kind = [], Description = []\<rparr>"

definition zero_OAuthToken :: OAuthToken where
  "zero_OAuthToken =
     \<lparr>ID = 0, ClientID = 0, UserID = 0, Scopes = None, FullToken = [], ExpiresAt = []\<rparr>"

record oauthClientWrapper =
  Client :: OAuthClient

record oauthTokenWrapper =
  Token :: OAuthToken

subsection \<open>The JSON of the two structs\<close>

text \<open>
  \<^verbatim>\<open>json.Marshal\<close> follows the struct tags: every field under its tag, in the order of
  the declaration; a field tagged \<^verbatim>\<open>omitempty\<close> is left out when it is the empty
  string; a nil slice is \<^verbatim>\<open>null\<close>. The request body is kept as this value: its bytes
  are the library's rendering of it. Marshalling these structs cannot fail, so the
  error return after \<^verbatim>\<open>json.Marshal\<close> has no branch here.
\<close>

definition omitempty :: "string \<Rightarrow> string \<Rightarrow> (string \<times> json) list" where
  "omitempty tag s = (if s = [] then [] else [(tag, JString s)])"

definition Marshal_OAuthClient :: "OAuthClient \<Rightarrow> json" where
  "Marshal_OAuthClient c =
     JObject ([(''id'', JNumber (FormatInt (OAuthClient.ID c))),
               (''name'', JString (Name c)),
               (''identifier'', JString (Identifier c)),
               (''kind'', JString (Kind c))]
              @ omitempty ''description'' (Description c))"

definition Marshal_oauthClientWrapper :: "oauthClientWrapper \<Rightarrow> json" where
  "Marshal_oauthClientWrapper w = JObject [(''client'', Marshal_OAuthClient (Client w))]"

definition Marshal_OAuthToken :: "OAuthToken \<Rightarrow> json" where
  "Marshal_OAuthToken t =
     JObject ([(''id'', JNumber (FormatInt (OAuthToken.ID t))),
               (''client_id'', JNumber (FormatInt (ClientID t))),
               (''user_id'', JNumber (FormatInt (UserID t))),
               (''scopes'', (case Scopes t of None \<Rightarrow> JNull | Some ss \<Rightarrow> JArray (map JString ss)))]
              @ omitempty ''full_token'' (FullToken t)
              @ omitempty ''expires_at'' (ExpiresAt t))"

definition Marshal_oauthTokenWrapper :: "oauthTokenWrapper \<Rightarrow> json" where
  "Marshal_oauthTokenWrapper w = JObject [(''token'', Marshal_OAuthToken (Token w))]"

text \<open>
  Decoding an object into a struct goes through its members in order; a key that
  matches no field is skipped, and every matching member is decoded into the field as
  it stands. The first error is the one reported.
\<close>

definition OAuthClient_tags :: "string list" where
  "OAuthClient_tags = [''id'', ''name'', ''identifier'', ''kind'', ''description'']"

definition OAuthToken_tags :: "string list" where
  "OAuthToken_tags =
     [''id'', ''client_id'', ''user_id'', ''scopes'', ''full_token'', ''expires_at'']"

definition decode_OAuthClient_field ::
  "lib \<Rightarrow> string \<Rightarrow> json \<Rightarrow> OAuthClient \<Rightarrow> string + OAuthClient" where
  "decode_OAuthClient_field l tag v c =
     (if tag = ''id'' then
        (case decode_int64 l v (OAuthClient.ID c) of
           Inl e \<Rightarrow> Inl e | Inr i \<Rightarrow> Inr (c\<lparr>OAuthClient.ID := i\<rparr>))
      else if tag = ''name'' then
        (case decode_string l v (Name c) of
           Inl e \<Rightarrow> Inl e | Inr s \<Rightarrow> Inr (c\<lparr>Name := s\<rparr>))
      else if tag = ''identifier'' then
        (case decode_string l v (Identifier c) of
           Inl e \<Rightarrow> Inl e | Inr s \<Rightarrow> Inr (c\<lparr>Identifier := s\<rparr>))
      else if tag = ''kind'' then
        (case decode_string l v (Kind c) of
           Inl e \<Rightarrow> Inl e | Inr s \<Rightarrow> Inr (c\<lparr>Kind := s\<rparr>))
      else
        (case decode_string l v (Description c) of
           Inl e \<Rightarrow> Inl e | Inr s \<Rightarrow> Inr (c\<lparr>Description := s\<rparr>)))"

fun decode_OAuthClient_members ::
  "lib \<Rightarrow> (string \<times> json) list \<Rightarrow> OAuthClient \<Rightarrow> string + OAuthClient" where
  "decode_OAuthClient_members l [] c = Inr c"
| "decode_OAuthClient_members l ((k, v) # kvs) c =
     (case match_field l OAuthClient_tags k of
        None \<Rightarrow> decode_OAuthClient_members l kvs c
      | Some tag \<Rightarrow>
          (case decode_OAuthClient_field l tag v c of
             Inl e \<Rightarrow> Inl e
           | Inr c' \<Rightarrow> decode_OAuthClient_members l kvs c'))"

fun decode_OAuthClient :: "lib \<Rightarrow> json \<Rightarrow> OAuthClient \<Rightarrow> string + OAuthClient" where
  "decode_OAuthClient l JNull c = Inr c"
| "decode_OAuthClient l (JObject kvs) c = decode_OAuthClient_members l kvs c"
| "decode_OAuthClient l v c = Inl (UnmarshalTypeError l (json_kind v) ''provider.OAuthClient'')"

fun decode_oauthClientWrapper_members ::
  "lib \<Rightarrow> (string \<times> json) list \<Rightarrow> oauthClientWrapper \<Rightarrow> string + oauthClientWrapper" where
  "decode_oauthClientWrapper_members l [] w = Inr w"
| "decode_oauthClientWrapper_members l ((k, v) # kvs) w =
     (case match_field l [''client''] k of
        None \<Rightarrow> decode_oauthClientWrapper_members l kvs w
      | Some tag \<Rightarrow>
          (case decode_OAuthClient l v (Client w) of
             Inl e \<Rightarrow> Inl e
           | Inr c \<Rightarrow> decode_oauthClientWrapper_members l kvs (w\<lparr>Client := c\<rparr>)))"

fun decode_oauthClientWrapper ::
  "lib \<Rightarrow> json \<Rightarrow> oauthClientWrapper \<Rightarrow> string + oauthClientWrapper" where
  "decode_oauthClientWrapper l JNull w = Inr w"
| "decode_oauthClientWrapper l (JObject kvs) w = decode_oauthClientWrapper_members l kvs w"
| "decode_oauthClientWrapper l v w =
     Inl (UnmarshalTypeError l (json_kind v) ''provider.oauthClientWrapper'')"

definition decode_OAuthToken_field ::
  "lib \<Rightarrow> string \<Rightarrow> json \<Rightarrow> OAuthToken \<Rightarrow> string + OAuthToken" where
  "decode_OAuthToken_field l tag v t =
     (if tag = ''id'' then
        (case decode_int64 l v (OAuthToken.ID t) of
           Inl e \<Rightarrow> Inl e | Inr i \<Rightarrow> Inr (t\<lparr>OAuthToken.ID := i\<rparr>))
      else if tag = ''client_id'' then
        (case decode_int64 l v (ClientID t) of
           Inl e \<Rightarrow> Inl e | Inr i \<Rightarrow> Inr (t\<lparr>ClientID := i\<rparr>))
      else if tag = ''user_id'' then
        (case decode_int64 l v (UserID t) of
           Inl e \<Rightarrow> Inl e | Inr i \<Rightarrow> Inr (t\<lparr>UserID := i\<rparr>))
      else if tag = ''scopes'' then
        (case decode_string_slice l v (Scopes t) of
           Inl e \<Rightarrow> Inl e | Inr ss \<Rightarrow> Inr (t\<lparr>Scopes := ss\<rparr>))
      else if tag = ''full_token'' then
        (case decode_string l v (FullToken t) of
           Inl e \<Rightarrow> Inl e | Inr s \<Rightarrow> Inr (t\<lparr>FullToken := s\<rparr>))
      else
        (case decode_string l v (ExpiresAt t) of
           Inl e \<Rightarrow> Inl e | Inr s \<Rightarrow> Inr (t\<lparr>ExpiresAt := s\<rparr>)))"

fun decode_OAuthToken_members ::
  "lib \<Rightarrow> (string \<times> json) list \<Rightarrow> OAuthToken \<Rightarrow> string + OAuthToken" where
  "decode_OAuthToken_members l [] t = Inr t"
| "decode_OAuthToken_members l ((k, v) # kvs) t =
     (case match_field l OAuthToken_tags k of
        None \<Rightarrow> decode_OAuthToken_members l kvs t
      | Some tag \<Rightarrow>
          (case decode_OAuthToken_field l tag v t of
             Inl e \<Rightarrow> Inl e
           | Inr t' \<Rightarrow> decode_OAuthToken_members l kvs t'))"

fun decode_OAuthToken :: "lib \<Rightarrow> json \<Rightarrow> OAuthToken \<Rightarrow> string + OAuthToken" where
  "decode_OAuthToken l JNull t = Inr t"
| "decode_OAuthToken l (JObject kvs) t = decode_OAuthToken_members l kvs t"
| "decode_OAuthToken l v t = Inl (UnmarshalTypeError l (json_kind v) ''provider.OAuthToken'')"

fun decode_oauthTokenWrapper_members ::
  "lib \<Rightarrow> (string \<times> json) list \<Rightarrow> oauthTokenWrapper \<Rightarrow> string + oauthTokenWrapper" where
  "decode_oauthTokenWrapper_members l [] w = Inr w"
| "decode_oauthTokenWrapper_members l ((k, v) # kvs) w =
     (case match_field l [''token''] k of
        None \<Rightarrow> decode_oauthTokenWrapper_members l kvs w
      | Some tag \<Rightarrow>
          (case decode_OAuthToken l v (Token w) of
             Inl e \<Rightarrow> Inl e
           | Inr t \<Rightarrow> decode_oauthTokenWrapper_members l kvs (w\<lparr>Token := t\<rparr>)))"

fun decode_oauthTokenWrapper ::
  "lib \<Rightarrow> json \<Rightarrow> oauthTokenWrapper \<Rightarrow> string + oauthTokenWrapper" where
  "decode_oauthTokenWrapper l JNull w = Inr w"
| "decode_oauthTokenWrapper l (JObject kvs) w = decode_oauthTokenWrapper_members l kvs w"
| "decode_oauthTokenWrapper l v w =
     Inl (UnmarshalTypeError l (json_kind v) ''provider.oauthTokenWrapper'')"

text \<open>\<^verbatim>\<open>json.NewDecoder(resp.Body).Decode(&result)\<close> with \<^verbatim>\<open>result\<close> at its zero value.\<close>

definition Decode_oauthClientWrapper :: "lib \<Rightarrow> string \<Rightarrow> string + oauthClientWrapper" where
  "Decode_oauthClientWrapper l body =
     (case json_read l body of
        Inl e \<Rightarrow> Inl e
      | Inr v \<Rightarrow> decode_oauthClientWrapper l v \<lparr>Client = zero_OAuthClient\<rparr>)"

definition Decode_oauthTokenWrapper :: "lib \<Rightarrow> string \<Rightarrow> string + oauthTokenWrapper" where
  "Decode_oauthTokenWrapper l body =
     (case json_read l body of
        Inl e \<Rightarrow> Inl e
      | Inr v \<Rightarrow> decode_oauthTokenWrapper l v \<lparr>Token = zero_OAuthToken\<rparr>)"

subsection \<open>Requests\<close>

definition NewRequest :: "lib \<Rightarrow> string \<Rightarrow> string \<Rightarrow> json option \<Rightarrow> string + http_request" where
  "NewRequest l m u b =
     (case url_error l u of
        Some e \<Rightarrow> Inl e
      | None \<Rightarrow> Inr \<lparr>Method = m, URL = u, BasicAuth = None, ContentType = None, Body = b\<rparr>)"

definition SetBasicAuth :: "string \<Rightarrow> string \<Rightarrow> http_request \<Rightarrow> http_request" where
  "SetBasicAuth username password req = req\<lparr>BasicAuth := Some (username, password)\<rparr>"

definition Header_Set_ContentType :: "string \<Rightarrow> http_request \<Rightarrow> http_request" where
  "Header_Set_ContentType v req = req\<lparr>ContentType := Some v\<rparr>"

text \<open>
  An operation returns Go's pair (a nil pointer is \<open>None\<close>, a nil error is \<open>None\<close>) and
  the requests it handed to \<open>Do\<close>. The receiver is a pointer; reading \<^verbatim>\<open>c.subdomain\<close>
  through a nil one, the first thing every operation does, panics.
\<close>

type_synonym 'a result = "('a option \<times> string option) \<times> http_request list"

definition CreateOAuthClient ::
  "lib \<Rightarrow> Client option \<Rightarrow> string \<Rightarrow> string \<Rightarrow> string \<Rightarrow> string \<Rightarrow> OAuthClient result exec" where
  "CreateOAuthClient l cp name identifier kind description =
     (case cp of
        None \<Rightarrow> Panic
      | Some c \<Rightarrow>
          let url = ''https://'' @ subdomain c @ ''.zendesk.com/api/v2/oauth/clients.json'';
              payload = \<lparr>Client = zero_OAuthClient\<lparr>Name := name, Identifier := identifier,
                           Kind := kind, Description := description\<rparr>\<rparr>;
              body = Marshal_oauthClientWrapper payload
          in (case NewRequest l ''POST'' url (Some body) of
               Inl err \<Rightarrow> Return ((None, Some err), [])
             | Inr req0 \<Rightarrow>
                 (let req = Header_Set_ContentType ''application/json''
                             (SetBasicAuth (email c @ ''/token'') (apiToken c) req0)
                 in (case Do l req of
                      Inl err \<Rightarrow> Return ((None, Some err), [req])
                    | Inr resp \<Rightarrow>
                        (if StatusCode resp \<noteq> 201 then
                          Return ((None, Some (''failed to create OAuth client: '' @ RespBody resp)), [req])
                        else
                          (case Decode_oauthClientWrapper l (RespBody resp) of
                             Inl err \<Rightarrow> Return ((None, Some err), [req])
                           | Inr result \<Rightarrow> Return ((Some (Client result), None), [req])))))))"

definition ReadOAuthClient :: "lib \<Rightarrow> Client option \<Rightarrow> int64 \<Rightarrow> OAuthClient result exec" where
  "ReadOAuthClient l cp i =
     (case cp of
        None \<Rightarrow> Panic
      | Some c \<Rightarrow>
          let url = ''https://'' @ subdomain c @ ''.zendesk.com/api/v2/oauth/clients/''
                      @ FormatInt i @ ''.json''
          in (case NewRequest l ''GET'' url None of
               Inl err \<Rightarrow> Return ((None, Some err), [])
             | Inr req0 \<Rightarrow>
                 (let req = SetBasicAuth (email c @ ''/token'') (apiToken c) req0
                 in (case Do l req of
                      Inl err \<Rightarrow> Return ((None, Some err), [req])
                    | Inr resp \<Rightarrow>
                        (if StatusCode resp = 404 then Return ((None, None), [req])
                        else if StatusCode resp \<noteq> 200 then
                          Return ((None, Some (''failed to read OAuth client: '' @ RespBody resp)), [req])
                        else
                          (case Decode_oauthClientWrapper l (RespBody resp) of
                             Inl err \<Rightarrow> Return ((None, Some err), [req])
                           | Inr result \<Rightarrow> Return ((Some (Client result), None), [req])))))))"

text \<open>The delete operations return the error only.\<close>

definition DeleteOAuthClient ::
  "lib \<Rightarrow> Client option \<Rightarrow> int64 \<Rightarrow> (string option \<times> http_request list) exec" where
  "DeleteOAuthClient l cp i =
     (case cp of
        None \<Rightarrow> Panic
      | Some c \<Rightarrow>
          let url = ''https://'' @ subdomain c @ ''.zendesk.com/api/v2/oauth/clients/''
                      @ FormatInt i @ ''.json''
          in (case NewRequest l ''DELETE'' url None of
               Inl err \<Rightarrow> Return (Some err, [])
             | Inr req0 \<Rightarrow>
                 (let req = SetBasicAuth (email c @ ''/token'') (apiToken c) req0
                 in (case Do l req of
                      Inl err \<Rightarrow> Return (Some err, [req])
                    | Inr resp \<Rightarrow>
                        (if StatusCode resp \<noteq> 204 then
                          Return (Some (''failed to delete OAuth client: '' @ RespBody resp), [req])
                        else Return (None, [req]))))))"

definition CreateOAuthToken ::
  "lib \<Rightarrow> Client option \<Rightarrow> int64 \<Rightarrow> string slice \<Rightarrow> string \<Rightarrow> OAuthToken result exec" where
  "CreateOAuthToken l cp clientID scopes expiresAt =
     (case cp of
        None \<Rightarrow> Panic
      | Some c \<Rightarrow>
          let url = ''https://'' @ subdomain c @ ''.zendesk.com/api/v2/oauth/tokens.json'';
              payload = \<lparr>Token = zero_OAuthToken\<lparr>ClientID := clientID, Scopes := scopes,
                           ExpiresAt := expiresAt\<rparr>\<rparr>;
              body = Marshal_oauthTokenWrapper payload
          in (case NewRequest l ''POST'' url (Some body) of
               Inl err \<Rightarrow> Return ((None, Some err), [])
             | Inr req0 \<Rightarrow>
                 (let req = Header_Set_ContentType ''application/json''
                             (SetBasicAuth (email c @ ''/token'') (apiToken c) req0)
                 in (case Do l req of
                      Inl err \<Rightarrow> Return ((None, Some err), [req])
                    | Inr resp \<Rightarrow>
                        (if StatusCode resp \<noteq> 201 then
                          Return ((None, Some (''failed to create OAuth token: '' @ RespBody resp)), [req])
                        else
                          (case Decode_oauthTokenWrapper l (RespBody resp) of
                             Inl err \<Rightarrow> Return ((None, Some err), [req])
                           | Inr result \<Rightarrow> Return ((Some (Token result), None), [req])))))))"

definition ReadOAuthToken :: "lib \<Rightarrow> Client option \<Rightarrow> int64 \<Rightarrow> OAuthToken result exec" where
  "ReadOAuthToken l cp i =
     (case cp of
        None \<Rightarrow> Panic
      | Some c \<Rightarrow>
          let url = ''https://'' @ subdomain c @ ''.zendesk.com/api/v2/oauth/tokens/''
                      @ FormatInt i @ ''.json''
          in (case NewRequest l ''GET'' url None of
               Inl err \<Rightarrow> Return ((None, Some err), [])
             | Inr req0 \<Rightarrow>
                 (let req = SetBasicAuth (email c @ ''/token'') (apiToken c) req0
                 in (case Do l req of
                      Inl err \<Rightarrow> Return ((None, Some err), [req])
                    | Inr resp \<Rightarrow>
                        (if StatusCode resp = 404 then Return ((None, None), [req])
                        else if StatusCode resp \<noteq> 200 then
                          Return ((None, Some (''failed to read OAuth token: '' @ RespBody resp)), [req])
                        else
                          (case Decode_oauthTokenWrapper l (RespBody resp) of
                             Inl err \<Rightarrow> Return ((None, Some err), [req])
                           | Inr result \<Rightarrow> Return ((Some (Token result), None), [req])))))))"

definition DeleteOAuthToken ::
  "lib \<Rightarrow> Client option \<Rightarrow> int64 \<Rightarrow> (string option \<times> http_request list) exec" where
  "DeleteOAuthToken l cp i =
     (case cp of
        None \<Rightarrow> Panic
      | Some c \<Rightarrow>
          let url = ''https://'' @ subdomain c @ ''.zendesk.com/api/v2/oauth/tokens/''
                      @ FormatInt i @ ''.json''
          in (case NewRequest l ''DELETE'' url None of
               Inl err \<Rightarrow> Return (Some err, [])
             | Inr req0 \<Rightarrow>
                 (let req = SetBasicAuth (email c @ ''/token'') (apiToken c) req0
                 in (case Do l req of
                      Inl err \<Rightarrow> Return (Some err, [req])
                    | Inr resp \<Rightarrow>
                        (if StatusCode resp \<noteq> 204 then
                          Return (Some (''failed to delete OAuth token: '' @ RespBody resp), [req])
                        else Return (None, [req]))))))"

section \<open>What the plugin framework supplies\<close>

text \<open>
  Diagnostics are a list; \<^verbatim>\<open>Append\<close> skips a diagnostic the list already holds, and
  \<^verbatim>\<open>AddError\<close> and \<^verbatim>\<open>AddAttributeError\<close> append one error.
\<close>

datatype severity = SeverityError | SeverityWarning

record diagnostic =
  Severity :: severity
  Summary :: string
  Detail :: string
  Path :: "string option"

definition HasError :: "diagnostic list \<Rightarrow> bool" where
  "HasError ds = list_ex (\<lambda>d. Severity d = SeverityError) ds"

fun Append :: "diagnostic list \<Rightarrow> diagnostic list \<Rightarrow> diagnostic list" where
  "Append ds [] = ds"
| "Append ds (d # rest) = Append (if d \<in> set ds then ds else ds @ [d]) rest"

definition ErrorDiagnostic :: "string \<Rightarrow> string \<Rightarrow> diagnostic" where
  "ErrorDiagnostic summary detail =
     \<lparr>Severity = SeverityError, Summary = summary, Detail = detail, Path = None\<rparr>"

definition AttributeErrorDiagnostic :: "string \<Rightarrow> string \<Rightarrow> string \<Rightarrow> diagnostic" where
  "AttributeErrorDiagnostic p summary detail =
     \<lparr>Severity = SeverityError, Summary = summary, Detail = detail, Path = Some p\<rparr>"

definition AddError :: "string \<Rightarrow> string \<Rightarrow> diagnostic list \<Rightarrow> diagnostic list" where
  "AddError summary detail ds = Append ds [ErrorDiagnostic summary detail]"

definition AddAttributeError ::
  "string \<Rightarrow> string \<Rightarrow> string \<Rightarrow> diagnostic list \<Rightarrow> diagnostic list" where
  "AddAttributeError p summary detail ds = Append ds [AttributeErrorDiagnostic p summary detail]"

text \<open>\<^verbatim>\<open>types.String\<close>: null, unknown, or a known string.\<close>

datatype tf_string = StringNull | StringUnknown | StringValue string

fun ValueString :: "tf_string \<Rightarrow> string" where
  "ValueString (StringValue s) = s"
| "ValueString _ = []"

fun IsNull :: "tf_string \<Rightarrow> bool" where
  "IsNull StringNull = True"
| "IsNull _ = False"

fun IsUnknown :: "tf_string \<Rightarrow> bool" where
  "IsUnknown StringUnknown = True"
| "IsUnknown _ = False"

text \<open>
  A request carries what \<^verbatim>\<open>Get(ctx, &target)\<close> on its plan, state or configuration
  yields: the diagnostics of the conversion and the filled target. Every response
  carries diagnostics; those of the resource operations also carry the state, which is
  \<open>None\<close> when the resource is not (or no longer) tracked. \<^verbatim>\<open>State.Set\<close> stores a model
  of this schema and reports nothing.
\<close>

record 'm CreateRequest =
  Plan_Get :: "diagnostic list \<times> 'm"

record 'm ReadRequest =
  State_Get :: "diagnostic list \<times> 'm"

record 'm UpdateRequest =
  Plan_Get :: "diagnostic list \<times> 'm"
  State_Get :: "diagnostic list \<times> 'm"

record 'm DeleteRequest =
  State_Get :: "diagnostic list \<times> 'm"

record with_Diagnostics =
  Diagnostics :: "diagnostic list"

record 'm Response = with_Diagnostics +
  State :: "'m option"

text \<open>
  The provider data is a Go \<^verbatim>\<open>any\<close>: a \<^verbatim>\<open>*Client\<close> (possibly a nil pointer) or a value
  of another type, given by the name that \<^verbatim>\<open>%T\<close> prints; the nil interface is \<open>None\<close>.
\<close>

datatype any = ClientPtr "Client option" | Other string

record resource_ConfigureRequest =
  ProviderData :: "any option"

section \<open>The OAuth client resource\<close>

record OAuthClientResource =
  client :: "Client option"

record OAuthClientResourceModel =
  ID :: tf_string
  Name :: tf_string
  Identifier :: tf_string
  Kind :: tf_string
  Description :: tf_string

definition NewOAuthClientResource :: OAuthClientResource where
  "NewOAuthClientResource = \<lparr>client = None\<rparr>"

definition OAuthClientResource_Configure ::
  "OAuthClientResource \<Rightarrow> resource_ConfigureRequest \<Rightarrow> with_Diagnostics
     \<Rightarrow> OAuthClientResource \<times> with_Diagnostics" where
  "OAuthClientResource_Configure r req resp =
     (case ProviderData req of
        None \<Rightarrow> (r, resp)
      | Some (Other T) \<Rightarrow>
          (r, resp\<lparr>Diagnostics := AddError ''Unexpected Resource Configure Type''
                 (''Expected *Client, got: '' @ T
                    @ ''. Please report this issue to the provider developers.'')
                 (Diagnostics resp)\<rparr>)
      | Some (ClientPtr c) \<Rightarrow> (r\<lparr>OAuthClientResource.client := c\<rparr>, resp))"

text \<open>
  Each operation returns the response as it leaves it and the requests sent. After a
  create without error the pointer is dereferenced unchecked.
\<close>

definition OAuthClientResource_Create ::
  "lib \<Rightarrow> OAuthClientResource \<Rightarrow> OAuthClientResourceModel CreateRequest
     \<Rightarrow> OAuthClientResourceModel Response
     \<Rightarrow> (OAuthClientResourceModel Response \<times> http_request list) exec" where
  "OAuthClientResource_Create l r req resp0 =
     (let plan = snd (CreateRequest.Plan_Get req);
          resp = resp0\<lparr>Diagnostics := Append (Diagnostics resp0) (fst (CreateRequest.Plan_Get req))\<rparr>
      in if HasError (Diagnostics resp) then Return (resp, [])
         else
           (case CreateOAuthClient l (OAuthClientResource.client r)
                   (ValueString (OAuthClientResourceModel.Name plan))
                   (ValueString (OAuthClientResourceModel.Identifier plan))
                   (ValueString (OAuthClientResourceModel.Kind plan))
                   (ValueString (OAuthClientResourceModel.Description plan)) of
              Panic \<Rightarrow> Panic
            | Return ((cl, Some err), sent) \<Rightarrow>
                Return (resp\<lparr>Diagnostics := AddError ''Error Creating OAuth Client''
                          (''Could not create OAuth client: '' @ err) (Diagnostics resp)\<rparr>, sent)
            | Return ((None, None), sent) \<Rightarrow> Panic
            | Return ((Some cl, None), sent) \<Rightarrow>
                Return (resp\<lparr>State := Some (plan
                          \<lparr>OAuthClientResourceModel.ID := StringValue (FormatInt (OAuthClient.ID cl)),
                           OAuthClientResourceModel.Description :=
                             StringValue (OAuthClient.Description cl)\<rparr>)\<rparr>, sent)))"

definition OAuthClientResource_Read ::
  "lib \<Rightarrow> OAuthClientResource \<Rightarrow> OAuthClientResourceModel ReadRequest
     \<Rightarrow> OAuthClientResourceModel Response
     \<Rightarrow> (OAuthClientResourceModel Response \<times> http_request list) exec" where
  "OAuthClientResource_Read l r req resp0 =
     (let state = snd (ReadRequest.State_Get req);
          resp = resp0\<lparr>Diagnostics := Append (Diagnostics resp0) (fst (ReadRequest.State_Get req))\<rparr>
      in if HasError (Diagnostics resp) then Return (resp, [])
         else
           (case ParseInt (ValueString (OAuthClientResourceModel.ID state)) of
              Inl err \<Rightarrow>
                Return (resp\<lparr>Diagnostics := AddError ''Error Parsing OAuth Client ID''
                          (''Could not parse OAuth client ID: ''
                             @ NumError_Error (Quote l)
                                 (ValueString (OAuthClientResourceModel.ID state)) err)
                          (Diagnostics resp)\<rparr>, [])
            | Inr i \<Rightarrow>
                (case ReadOAuthClient l (OAuthClientResource.client r) i of
                   Panic \<Rightarrow> Panic
                 | Return ((cl, Some err), sent) \<Rightarrow>
                     Return (resp\<lparr>Diagnostics := AddError ''Error Reading OAuth Client''
                               (''Could not read OAuth client: '' @ err) (Diagnostics resp)\<rparr>, sent)
                 | Return ((None, None), sent) \<Rightarrow> Return (resp\<lparr>State := None\<rparr>, sent)
                 | Return ((Some cl, None), sent) \<Rightarrow>
                     Return (resp\<lparr>State := Some (state
                               \<lparr>OAuthClientResourceModel.Name := StringValue (OAuthClient.Name cl),
                                OAuthClientResourceModel.Identifier :=
                                  StringValue (OAuthClient.Identifier cl),
                                OAuthClientResourceModel.Kind := StringValue (OAuthClient.Kind cl),
                                OAuthClientResourceModel.Description :=
                                  StringValue (OAuthClient.Description cl)\<rparr>)\<rparr>, sent))))"

definition OAuthClientResource_Update ::
  "OAuthClientResource \<Rightarrow> OAuthClientResourceModel UpdateRequest
     \<Rightarrow> OAuthClientResourceModel Response
     \<Rightarrow> (OAuthClientResourceModel Response \<times> http_request list) exec" where
  "OAuthClientResource_Update r req resp =
     Return (resp\<lparr>Diagnostics := AddError ''Update Not Supported''
               ''The Zendesk API does not support updating OAuth clients. To change the configuration, you must create a new client.''
               (Diagnostics resp)\<rparr>, [])"

definition OAuthClientResource_Delete ::
  "lib \<Rightarrow> OAuthClientResource \<Rightarrow> OAuthClientResourceModel DeleteRequest
     \<Rightarrow> OAuthClientResourceModel Response
     \<Rightarrow> (OAuthClientResourceModel Response \<times> http_request list) exec" where
  "OAuthClientResource_Delete l r req resp0 =
     (let state = snd (DeleteRequest.State_Get req);
          resp = resp0\<lparr>Diagnostics := Append (Diagnostics resp0) (fst (DeleteRequest.State_Get req))\<rparr>
      in if HasError (Diagnostics resp) then Return (resp, [])
         else
           (case ParseInt (ValueString (OAuthClientResourceModel.ID state)) of
              Inl err \<Rightarrow>
                Return (resp\<lparr>Diagnostics := AddError ''Error Parsing OAuth Client ID''
                          (''Could not parse OAuth client ID: ''
                             @ NumError_Error (Quote l)
                                 (ValueString (OAuthClientResourceModel.ID state)) err)
                          (Diagnostics resp)\<rparr>, [])
            | Inr i \<Rightarrow>
                (case DeleteOAuthClient l (OAuthClientResource.client r) i of
                   Panic \<Rightarrow> Panic
                 | Return (Some err, sent) \<Rightarrow>
                     Return (resp\<lparr>Diagnostics := AddError ''Error Deleting OAuth Client''
                               (''Could not delete OAuth client: '' @ err) (Diagnostics resp)\<rparr>, sent)
                 | Return (None, sent) \<Rightarrow> Return (resp, sent))))"

section \<open>The OAuth token resource\<close>

record OAuthTokenResource =
  client :: "Client option"

record OAuthTokenResourceModel =
  ID :: tf_string
  ClientID :: tf_string
  Scopes :: "tf_string slice"
  FullToken :: tf_string
  ExpiresAt :: tf_string

definition NewOAuthTokenResource :: OAuthTokenResource where
  "NewOAuthTokenResource = \<lparr>client = None\<rparr>"

definition OAuthTokenResource_Configure ::
  "OAuthTokenResource \<Rightarrow> resource_ConfigureRequest \<Rightarrow> with_Diagnostics
     \<Rightarrow> OAuthTokenResource \<times> with_Diagnostics" where
  "OAuthTokenResource_Configure r req resp =
     (case ProviderData req of
        None \<Rightarrow> (r, resp)
      | Some (Other T) \<Rightarrow>
          (r, resp\<lparr>Diagnostics := AddError ''Unexpected Resource Configure Type''
                 (''Expected *Client, got: '' @ T
                    @ ''. Please report this issue to the provider developers.'')
                 (Diagnostics resp)\<rparr>)
      | Some (ClientPtr c) \<Rightarrow> (r\<lparr>OAuthTokenResource.client := c\<rparr>, resp))"

text \<open>The scopes handed to the API client are a fresh slice, never nil.\<close>

definition OAuthTokenResource_Create ::
  "lib \<Rightarrow> OAuthTokenResource \<Rightarrow> OAuthTokenResourceModel CreateRequest
     \<Rightarrow> OAuthTokenResourceModel Response
     \<Rightarrow> (OAuthTokenResourceModel Response \<times> http_request list) exec" where
  "OAuthTokenResource_Create l r req resp0 =
     (let plan = snd (CreateRequest.Plan_Get req);
          resp = resp0\<lparr>Diagnostics := Append (Diagnostics resp0) (fst (CreateRequest.Plan_Get req))\<rparr>
      in if HasError (Diagnostics resp) then Return (resp, [])
         else
           (case ParseInt (ValueString (OAuthTokenResourceModel.ClientID plan)) of
              Inl err \<Rightarrow>
                Return (resp\<lparr>Diagnostics := AddError ''Error Parsing Client ID''
                          (''Could not parse client ID: ''
                             @ NumError_Error (Quote l)
                                 (ValueString (OAuthTokenResourceModel.ClientID plan)) err)
                          (Diagnostics resp)\<rparr>, [])
            | Inr clientID \<Rightarrow>
                (let scopes = Some (map ValueString (elems (OAuthTokenResourceModel.Scopes plan)))
                 in (case CreateOAuthToken l (OAuthTokenResource.client r) clientID scopes
                            (ValueString (OAuthTokenResourceModel.ExpiresAt plan)) of
                       Panic \<Rightarrow> Panic
                     | Return ((tk, Some err), sent) \<Rightarrow>
                         Return (resp\<lparr>Diagnostics := AddError ''Error Creating OAuth Token''
                                   (''Could not create OAuth token: '' @ err) (Diagnostics resp)\<rparr>, sent)
                     | Return ((None, None), sent) \<Rightarrow> Panic
                     | Return ((Some tk, None), sent) \<Rightarrow>
                         Return (resp\<lparr>State := Some (plan
                                   \<lparr>OAuthTokenResourceModel.ID :=
                                      StringValue (FormatInt (OAuthToken.ID tk)),
                                    OAuthTokenResourceModel.FullToken :=
                                      StringValue (OAuthToken.FullToken tk),
                                    OAuthTokenResourceModel.ExpiresAt :=
                                      StringValue (OAuthToken.ExpiresAt tk)\<rparr>)\<rparr>, sent)))))"

definition OAuthTokenResource_Read ::
  "lib \<Rightarrow> OAuthTokenResource \<Rightarrow> OAuthTokenResourceModel ReadRequest
     \<Rightarrow> OAuthTokenResourceModel Response
     \<Rightarrow> (OAuthTokenResourceModel Response \<times> http_request list) exec" where
  "OAuthTokenResource_Read l r req resp0 =
     (let state = snd (ReadRequest.State_Get req);
          resp = resp0\<lparr>Diagnostics := Append (Diagnostics resp0) (fst (ReadRequest.State_Get req))\<rparr>
      in if HasError (Diagnostics resp) then Return (resp, [])
         else
           (case ParseInt (ValueString (OAuthTokenResourceModel.ID state)) of
              Inl err \<Rightarrow>
                Return (resp\<lparr>Diagnostics := AddError ''Error Parsing OAuth Token ID''
                          (''Could not parse OAuth token ID: ''
                             @ NumError_Error (Quote l)
                                 (ValueString (OAuthTokenResourceModel.ID state)) err)
                          (Diagnostics resp)\<rparr>, [])
            | Inr i \<Rightarrow>
                (case ReadOAuthToken l (OAuthTokenResource.client r) i of
                   Panic \<Rightarrow> Panic
                 | Return ((tk, Some err), sent) \<Rightarrow>
                     Return (resp\<lparr>Diagnostics := AddError ''Error Reading OAuth Token''
                               (''Could not read OAuth token: '' @ err) (Diagnostics resp)\<rparr>, sent)
                 | Return ((None, None), sent) \<Rightarrow> Return (resp\<lparr>State := None\<rparr>, sent)
                 | Return ((Some tk, None), sent) \<Rightarrow>
                     Return (resp\<lparr>State := Some (state
                               \<lparr>OAuthTokenResourceModel.ClientID :=
                                  StringValue (FormatInt (OAuthToken.ClientID tk)),
                                OAuthTokenResourceModel.Scopes :=
                                  Some (map StringValue (elems (OAuthToken.Scopes tk))),
                                OAuthTokenResourceModel.ExpiresAt :=
                                  StringValue (OAuthToken.ExpiresAt tk)\<rparr>)\<rparr>, sent))))"

definition OAuthTokenResource_Update ::
  "OAuthTokenResource \<Rightarrow> OAuthTokenResourceModel UpdateRequest
     \<Rightarrow> OAuthTokenResourceModel Response
     \<Rightarrow> (OAuthTokenResourceModel Response \<times> http_request list) exec" where
  "OAuthTokenResource_Update r req resp =
     Return (resp\<lparr>Diagnostics := AddError ''Update Not Supported''
               ''The Zendesk API does not support updating OAuth tokens. To change the configuration, you must create a new token.''
               (Diagnostics resp)\<rparr>, [])"

definition OAuthTokenResource_Delete ::
  "lib \<Rightarrow> OAuthTokenResource \<Rightarrow> OAuthTokenResourceModel DeleteRequest
     \<Rightarrow> OAuthTokenResourceModel Response
     \<Rightarrow> (OAuthTokenResourceModel Response \<times> http_request list) exec" where
  "OAuthTokenResource_Delete l r req resp0 =
     (let state = snd (DeleteRequest.State_Get req);
          resp = resp0\<lparr>Diagnostics := Append (Diagnostics resp0) (fst (DeleteRequest.State_Get req))\<rparr>
      in if HasError (Diagnostics resp) then Return (resp, [])
         else
           (case ParseInt (ValueString (OAuthTokenResourceModel.ID state)) of
              Inl err \<Rightarrow>
                Return (resp\<lparr>Diagnostics := AddError ''Error Parsing OAuth Token ID''
                          (''Could not parse OAuth token ID: ''
                             @ NumError_Error (Quote l)
                                 (ValueString (OAuthTokenResourceModel.ID state)) err)
                          (Diagnostics resp)\<rparr>, [])
            | Inr i \<Rightarrow>
                (case DeleteOAuthToken l (OAuthTokenResource.client r) i of
                   Panic \<Rightarrow> Panic
                 | Return (Some err, sent) \<Rightarrow>
                     Return (resp\<lparr>Diagnostics := AddError ''Error Deleting OAuth Token''
                               (''Could not delete OAuth token: '' @ err) (Diagnostics resp)\<rparr>, sent)
                 | Return (None, sent) \<Rightarrow> Return (resp, sent))))"

section \<open>The provider\<close>

record ZendeskProviderModel =
  Subdomain :: tf_string
  Email :: tf_string
  APIToken :: tf_string

record provider_ConfigureRequest =
  Config_Get :: "diagnostic list \<times> ZendeskProviderModel"

record provider_ConfigureResponse = with_Diagnostics +
  DataSourceData :: "any option"
  ResourceData :: "any option"

definition add_if :: "bool \<Rightarrow> (diagnostic list \<Rightarrow> diagnostic list) \<Rightarrow> diagnostic list \<Rightarrow> diagnostic list" where
  "add_if b f ds = (if b then f ds else ds)"

text \<open>
  \<open>getenv\<close> is \<^verbatim>\<open>os.Getenv\<close>. The function ends where the source does: after the last
  check it returns, the construction of the client being a comment.
\<close>

definition ZendeskProvider_Configure ::
  "(string \<Rightarrow> string) \<Rightarrow> provider_ConfigureRequest \<Rightarrow> provider_ConfigureResponse
     \<Rightarrow> provider_ConfigureResponse" where
  "ZendeskProvider_Configure getenv req resp0 =
     (let config = snd (Config_Get req);
          resp = resp0\<lparr>Diagnostics := Append (Diagnostics resp0) (fst (Config_Get req))\<rparr>
      in if HasError (Diagnostics resp) then resp
         else
           (let d1 = add_if (IsUnknown (Subdomain config))
                       (AddAttributeError ''subdomain'' ''Unknown Zendesk subdomain''
                          ''The provider cannot create the Zendesk API client as the subdomain is unknown.'')
                       (Diagnostics resp);
                d2 = add_if (IsUnknown (Email config))
                       (AddAttributeError ''email'' ''Unknown Zendesk email''
                          ''The provider cannot create the Zendesk API client as the email is unknown.'')
                       d1;
                d3 = add_if (IsUnknown (APIToken config))
                       (AddAttributeError ''api_token'' ''Unknown Zendesk API token''
                          ''The provider cannot create the Zendesk API client as the API token is unknown.'')
                       d2
            in if HasError d3 then resp\<lparr>Diagnostics := d3\<rparr>
               else
                 (let subdomain = (if \<not> IsNull (Subdomain config)
                                   then ValueString (Subdomain config)
                                   else getenv ''ZENDESK_SUBDOMAIN'');
                      email = (if \<not> IsNull (Email config)
                               then ValueString (Email config)
                               else getenv ''ZENDESK_EMAIL'');
                      apiToken = (if \<not> IsNull (APIToken config)
                                  then ValueString (APIToken config)
                                  else getenv ''ZENDESK_API_TOKEN'');
                      d4 = add_if (subdomain = [])
                             (AddAttributeError ''subdomain'' ''Missing Zendesk subdomain''
                                ''The provider cannot create the Zendesk API client as the subdomain is missing.'')
                             d3;
                      d5 = add_if (email = [])
                             (AddAttributeError ''email'' ''Missing Zendesk email''
                                ''The provider cannot create the Zendesk API client as the email is missing.'')
                             d4;
                      d6 = add_if (apiToken = [])
                             (AddAttributeError ''api_token'' ''Missing Zendesk API token''
                                ''The provider cannot create the Zendesk API client as the API token is missing.'')
                             d5
                  in if HasError d6 then resp\<lparr>Diagnostics := d6\<rparr>
                     else resp\<lparr>Diagnostics := d6\<rparr>)))"

section \<open>An environment to run the operations in\<close>

text \<open>
  A server that answers every request with one status and one body, read as the JSON
  value \<open>v\<close>; every URL parses, and names fold to themselves.
\<close>

definition fixed_server :: "int \<Rightarrow> string \<Rightarrow> json \<Rightarrow> lib" where
  "fixed_server status body v =
     \<lparr>url_error = (\<lambda>u. None),
      Do = (\<lambda>rq. Inr \<lparr>StatusCode = status, RespBody = body\<rparr>),
      json_read = (\<lambda>b. Inr v),
      foldName = (\<lambda>n. n),
      UnmarshalTypeError = (\<lambda>what target. ''json: cannot unmarshal '' @ what @ '' into '' @ target),
      Quote = (\<lambda>s. [CHR 0x22] @ s @ [CHR 0x22])\<rparr>"

definition acme :: Client where
  "acme = NewClient ''acme'' ''admin@example.com'' ''secret''"

text \<open>An operation that returned with an error diagnostic in its response.\<close>

fun diagnosed :: "('a with_Diagnostics_scheme \<times> http_request list) exec \<Rightarrow> bool" where
  "diagnosed Panic = False"
| "diagnosed (Return (resp, sent)) = HasError (Diagnostics resp)"

text \<open>The requests an operation sent; none when it panicked.\<close>

fun sent_of :: "('a \<times> http_request list) exec \<Rightarrow> http_request list" where
  "sent_of Panic = []"
| "sent_of (Return (x, sent)) = sent"

text \<open>
  The body of the create request as the specification words it: exactly the four fields
  under the key \<^verbatim>\<open>client\<close>.
\<close>

definition spec_create_client_body :: "string \<Rightarrow> string \<Rightarrow> string \<Rightarrow> string \<Rightarrow> json" where
  "spec_create_client_body name identifier kind description =
     JObject [(''client'', JObject [(''name'', JString name),
                                     (''identifier'', JString identifier),
                                     (''kind'', JString kind),
                                     (''description'', JString description)])]"

text \<open>
  A response omits a field of the record when no member of an object that is decoded
  into the record has a key that the decoder matches with the field's tag. \<open>omits\<close> says
  so of the members of one object, \<open>envelope_omits\<close> of every object under a key that
  matches the envelope's.
\<close>

definition omits :: "lib \<Rightarrow> string list \<Rightarrow> string \<Rightarrow> (string \<times> json) list \<Rightarrow> bool" where
  "omits l tags tag ms = list_all (\<lambda>kv. match_field l tags (fst kv) \<noteq> Some tag) ms"

fun inner_omits :: "lib \<Rightarrow> string list \<Rightarrow> string \<Rightarrow> json \<Rightarrow> bool" where
  "inner_omits l tags tag (JObject ms) = omits l tags tag ms"
| "inner_omits l tags tag v = True"

fun envelope_omits :: "lib \<Rightarrow> string \<Rightarrow> string list \<Rightarrow> string \<Rightarrow> json \<Rightarrow> bool" where
  "envelope_omits l env tags tag (JObject outer) =
     list_all (\<lambda>kv. match_field l [env] (fst kv) = None \<or> inner_omits l tags tag (snd kv)) outer"
| "envelope_omits l env tags tag v = True"

text \<open>
  Refreshing a tracked token: the framework reads with the tracked state as the prior
  state and as the state of the response, and tracks what the response holds afterwards
  (nothing once the resource is removed, or when the read panicked). \<open>refreshes\<close> runs
  one refresh after another, each against its own libraries and server.
\<close>

definition refresh ::
  "lib \<Rightarrow> OAuthTokenResource \<Rightarrow> OAuthTokenResourceModel \<Rightarrow> OAuthTokenResourceModel option" where
  "refresh l r s =
     (case OAuthTokenResource_Read l r \<lparr>ReadRequest.State_Get = ([], s)\<rparr>
             \<lparr>Diagnostics = [], State = Some s\<rparr> of
        Panic \<Rightarrow> None
      | Return (resp, sent) \<Rightarrow> State resp)"

fun refreshes ::
  "lib list \<Rightarrow> OAuthTokenResource \<Rightarrow> OAuthTokenResourceModel \<Rightarrow> OAuthTokenResourceModel option" where
  "refreshes [] r s = Some s"
| "refreshes (l # ls) r s =
     (case refresh l r s of None \<Rightarrow> None | Some s' \<Rightarrow> refreshes ls r s')"

text \<open>Two tracked resources, and the same with an id that is not a number.\<close>

definition client_model :: "string \<Rightarrow> OAuthClientResourceModel" where
  "client_model i =
     \<lparr>OAuthClientResourceModel.ID = StringValue i,
      OAuthClientResourceModel.Name = StringValue ''Basic Client'',
      OAuthClientResourceModel.Identifier = StringValue ''basic_client'',
      OAuthClientResourceModel.Kind = StringValue ''public'',
      OAuthClientResourceModel.Description = StringValue ''mine''\<rparr>"

definition token_model :: "string \<Rightarrow> string \<Rightarrow> OAuthTokenResourceModel" where
  "token_model i ci =
     \<lparr>OAuthTokenResourceModel.ID = StringValue i,
      OAuthTokenResourceModel.ClientID = StringValue ci,
      OAuthTokenResourceModel.Scopes = Some [StringValue ''read''],
      OAuthTokenResourceModel.FullToken = StringValue ''secret'',
      OAuthTokenResourceModel.ExpiresAt = StringValue ''2024-12-31T23:59:59Z''\<rparr>"

definition client_resource :: OAuthClientResource where
  "client_resource = \<lparr>OAuthClientResource.client = Some acme\<rparr>"

definition token_resource :: OAuthTokenResource where
  "token_resource = \<lparr>OAuthTokenResource.client = Some acme\<rparr>"

definition tracked :: "'m \<Rightarrow> 'm Response" where
  "tracked m = \<lparr>Diagnostics = [], State = Some m\<rparr>"

definition untracked :: "'m Response" where
  "untracked = \<lparr>Diagnostics = [], State = None\<rparr>"

text \<open>Response bodies of the server, as JSON values.\<close>

definition client_json :: json where
  "client_json =
     JObject [(''client'', JObject [(''id'', JNumber ''42''),
                                     (''name'', JString ''Basic Client''),
                                     (''identifier'', JString ''basic_client''),
                                     (''kind'', JString ''public''),
                                     (''description'', JString ''echo'')])]"

definition token_json :: json where
  "token_json =
     JObject [(''token'', JObject [(''id'', JNumber ''8''),
                                    (''client_id'', JNumber ''42''),
                                    (''user_id'', JNumber ''1''),
                                    (''scopes'', JArray [JString ''read'', JString ''write'']),
                                    (''full_token'', JString ''s3cr3t''),
                                    (''expires_at'', JString ''2025-01-01T00:00:00Z'')])]"

text \<open>Plans for a create: the computed attributes are still unknown.\<close>

definition client_plan :: OAuthClientResourceModel where
  "client_plan = (client_model [])\<lparr>OAuthClientResourceModel.ID := StringUnknown\<rparr>"

definition token_plan :: "string \<Rightarrow> OAuthTokenResourceModel" where
  "token_plan ci =
     (token_model [] ci)\<lparr>OAuthTokenResourceModel.ID := StringUnknown,
                          OAuthTokenResourceModel.FullToken := StringUnknown\<rparr>"

text \<open>The same bodies without the optional field.\<close>

definition client_json_bare :: json where
  "client_json_bare =
     JObject [(''client'', JObject [(''id'', JNumber ''42''),
                                     (''name'', JString ''Basic Client''),
                                     (''identifier'', JString ''basic_client''),
                                     (''kind'', JString ''public'')])]"

definition token_json_bare :: json where
  "token_json_bare =
     JObject [(''token'', JObject [(''id'', JNumber ''8''),
                                    (''client_id'', JNumber ''42''),
                                    (''user_id'', JNumber ''1''),
                                    (''scopes'', JArray [JString ''read'']),
                                    (''full_token'', JString ''s3cr3t'')])]"

text \<open>
  A complete provider configuration, an empty environment, and the response the
  framework passes in.
\<close>

definition acme_config :: provider_ConfigureRequest where
  "acme_config =
     \<lparr>Config_Get = ([], \<lparr>Subdomain = StringValue ''acme'',
                           Email = StringValue ''admin@example.com'',
                           APIToken = StringValue ''secret''\<rparr>)\<rparr>"

definition no_env :: "string \<Rightarrow> string" where
  "no_env name = []"

definition fresh_response :: provider_ConfigureResponse where
  "fresh_response = \<lparr>Diagnostics = [], DataSourceData = None, ResourceData = None\<rparr>"

section \<open>Facts about the framework and the API client\<close>

lemma set_Append: "set (Append ds es) = set ds \<union> set es"
  by (induction es arbitrary: ds) auto

lemma HasError_iff: "HasError ds = (\<exists>d\<in>set ds. Severity d = SeverityError)"
  by (simp add: HasError_def list_ex_iff)

lemma HasError_AddError: "HasError (AddError s d ds)"
  unfolding HasError_iff AddError_def set_Append
  by (rule bexI [where x = "ErrorDiagnostic s d"]) (simp_all add: ErrorDiagnostic_def)

lemma AddError_mem: "ErrorDiagnostic s d \<in> set (AddError s d ds)"
  by (simp add: AddError_def set_Append)

text \<open>
  What an operation of the API client returns once its request has been sent and
  answered: the outcome is a function of the response alone.
\<close>

lemma CreateOAuthClient_sent:
  assumes "CreateOAuthClient l cp n idf k d = Return (out, [rq])" and "Do l rq = Inr hr"
  shows "out =
    (if StatusCode hr \<noteq> 201 then
       (None, Some (''failed to create OAuth client: '' @ RespBody hr))
     else (case Decode_oauthClientWrapper l (RespBody hr) of
             Inl e \<Rightarrow> (None, Some e)
           | Inr w \<Rightarrow> (Some (Client w), None)))"
  using assms
  by (auto simp: CreateOAuthClient_def Let_def split: option.splits sum.splits if_splits)

lemma ReadOAuthClient_sent:
  assumes "ReadOAuthClient l cp i = Return (out, [rq])" and "Do l rq = Inr hr"
  shows "out =
    (if StatusCode hr = 404 then (None, None)
     else if StatusCode hr \<noteq> 200 then
       (None, Some (''failed to read OAuth client: '' @ RespBody hr))
     else (case Decode_oauthClientWrapper l (RespBody hr) of
             Inl e \<Rightarrow> (None, Some e)
           | Inr w \<Rightarrow> (Some (Client w), None)))"
  using assms
  by (auto simp: ReadOAuthClient_def Let_def split: option.splits sum.splits if_splits)

lemma DeleteOAuthClient_sent:
  assumes "DeleteOAuthClient l cp i = Return (err, [rq])" and "Do l rq = Inr hr"
  shows "err =
    (if StatusCode hr \<noteq> 204 then Some (''failed to delete OAuth client: '' @ RespBody hr)
     else None)"
  using assms
  by (auto simp: DeleteOAuthClient_def Let_def split: option.splits sum.splits if_splits)

lemma CreateOAuthToken_sent:
  assumes "CreateOAuthToken l cp ci sc ex = Return (out, [rq])" and "Do l rq = Inr hr"
  shows "out =
    (if StatusCode hr \<noteq> 201 then
       (None, Some (''failed to create OAuth token: '' @ RespBody hr))
     else (case Decode_oauthTokenWrapper l (RespBody hr) of
             Inl e \<Rightarrow> (None, Some e)
           | Inr w \<Rightarrow> (Some (Token w), None)))"
  using assms
  by (auto simp: CreateOAuthToken_def Let_def split: option.splits sum.splits if_splits)

lemma ReadOAuthToken_sent:
  assumes "ReadOAuthToken l cp i = Return (out, [rq])" and "Do l rq = Inr hr"
  shows "out =
    (if StatusCode hr = 404 then (None, None)
     else if StatusCode hr \<noteq> 200 then
       (None, Some (''failed to read OAuth token: '' @ RespBody hr))
     else (case Decode_oauthTokenWrapper l (RespBody hr) of
             Inl e \<Rightarrow> (None, Some e)
           | Inr w \<Rightarrow> (Some (Token w), None)))"
  using assms
  by (auto simp: ReadOAuthToken_def Let_def split: option.splits sum.splits if_splits)

lemma DeleteOAuthToken_sent:
  assumes "DeleteOAuthToken l cp i = Return (err, [rq])" and "Do l rq = Inr hr"
  shows "err =
    (if StatusCode hr \<noteq> 204 then Some (''failed to delete OAuth token: '' @ RespBody hr)
     else None)"
  using assms
  by (auto simp: DeleteOAuthToken_def Let_def split: option.splits sum.splits if_splits)

text \<open>The six operations against the fixed server, with the client \<open>acme\<close>.\<close>

lemmas run_defs =
  fixed_server_def acme_def NewClient_def NewRequest_def SetBasicAuth_def
  Header_Set_ContentType_def Let_def

lemmas parse_defs = ParseInt_def ParseUint_def is_digit_def digit_val_def maxUint64_def

lemmas format_defs = FormatInt_def format_nat.simps digit_char_def

lemmas example_defs =
  client_model_def token_model_def client_resource_def token_resource_def tracked_def
  untracked_def client_plan_def token_plan_def client_json_def token_json_def
  client_json_bare_def token_json_bare_def

lemmas decode_defs =
  Decode_oauthClientWrapper_def Decode_oauthTokenWrapper_def match_field_def
  OAuthClient_tags_def OAuthToken_tags_def decode_OAuthClient_field_def
  decode_OAuthToken_field_def zero_OAuthClient_def zero_OAuthToken_def

text \<open>
  With a client the operations always return, a create never with neither record nor
  error; through a nil pointer they panic.
\<close>

lemma CreateOAuthClient_returns:
  "\<exists>out sent. CreateOAuthClient l (Some c) n idf k d = Return (out, sent) \<and> out \<noteq> (None, None)"
  by (simp add: CreateOAuthClient_def Let_def split: sum.splits)

lemma ReadOAuthClient_returns:
  "\<exists>out sent. ReadOAuthClient l (Some c) i = Return (out, sent)"
  by (simp add: ReadOAuthClient_def Let_def split: sum.splits)

lemma DeleteOAuthClient_returns:
  "\<exists>err sent. DeleteOAuthClient l (Some c) i = Return (err, sent)"
  by (simp add: DeleteOAuthClient_def Let_def split: sum.splits)

lemma CreateOAuthToken_returns:
  "\<exists>out sent. CreateOAuthToken l (Some c) ci sc ex = Return (out, sent) \<and> out \<noteq> (None, None)"
  by (simp add: CreateOAuthToken_def Let_def split: sum.splits)

lemma ReadOAuthToken_returns:
  "\<exists>out sent. ReadOAuthToken l (Some c) i = Return (out, sent)"
  by (simp add: ReadOAuthToken_def Let_def split: sum.splits)

lemma DeleteOAuthToken_returns:
  "\<exists>err sent. DeleteOAuthToken l (Some c) i = Return (err, sent)"
  by (simp add: DeleteOAuthToken_def Let_def split: sum.splits)

lemma nil_client_panics:
  "CreateOAuthClient l None n idf k d = Panic"
  "ReadOAuthClient l None i = Panic"
  "DeleteOAuthClient l None i = Panic"
  "CreateOAuthToken l None ci sc ex = Panic"
  "ReadOAuthToken l None i = Panic"
  "DeleteOAuthToken l None i = Panic"
  by (simp_all add: CreateOAuthClient_def ReadOAuthClient_def DeleteOAuthClient_def
      CreateOAuthToken_def ReadOAuthToken_def DeleteOAuthToken_def)

section \<open>The claims\<close>

text \<open>
  The provider's configure never sets the data it is to hand to the resources and data
  sources: they are what the response held when it was passed in.
\<close>

lemma ZendeskProvider_Configure_hands_over_nothing:
  "ResourceData (ZendeskProvider_Configure getenv req resp) = ResourceData resp
   \<and> DataSourceData (ZendeskProvider_Configure getenv req resp) = DataSourceData resp"
  by (simp add: ZendeskProvider_Configure_def Let_def)

text \<open>
  C1 fails on the code. With subdomain, email and API token all given, the provider's
  configure reports no error and yet leaves the resource data nil: the construction of
  the client is a comment under a TODO. Handed that nil, the configure of either
  resource leaves its client nil.
\<close>

theorem provider_configure_constructs_no_client:
  "\<not> HasError (Diagnostics (ZendeskProvider_Configure no_env acme_config fresh_response))
   \<and> ResourceData (ZendeskProvider_Configure no_env acme_config fresh_response) = None
   \<and> OAuthClientResource.client (fst (OAuthClientResource_Configure NewOAuthClientResource
        \<lparr>ProviderData = ResourceData (ZendeskProvider_Configure no_env acme_config fresh_response)\<rparr>
        \<lparr>Diagnostics = []\<rparr>)) = None
   \<and> OAuthTokenResource.client (fst (OAuthTokenResource_Configure NewOAuthTokenResource
        \<lparr>ProviderData = ResourceData (ZendeskProvider_Configure no_env acme_config fresh_response)\<rparr>
        \<lparr>Diagnostics = []\<rparr>)) = None"
  by (simp add: ZendeskProvider_Configure_def Let_def acme_config_def fresh_response_def
      no_env_def add_if_def HasError_def OAuthClientResource_Configure_def
      OAuthTokenResource_Configure_def NewOAuthClientResource_def NewOAuthTokenResource_def)

text \<open>
  A resource operation that sent a request had no error diagnostic after reading its
  state, parsed the id, and got the request from the API client.
\<close>

lemma OAuthClientResource_Read_sent:
  assumes "OAuthClientResource_Read l r req resp0 = Return (resp', [rq])"
  shows "\<not> HasError (Append (Diagnostics resp0) (fst (ReadRequest.State_Get req)))
    \<and> (\<exists>i out.
          ParseInt (ValueString (OAuthClientResourceModel.ID (snd (ReadRequest.State_Get req))))
            = Inr i
          \<and> ReadOAuthClient l (OAuthClientResource.client r) i = Return (out, [rq]))"
  using assms
  by (auto simp: OAuthClientResource_Read_def Let_def
      split: if_splits sum.splits exec.splits prod.splits option.splits)

lemma OAuthTokenResource_Read_sent:
  assumes "OAuthTokenResource_Read l r req resp0 = Return (resp', [rq])"
  shows "\<not> HasError (Append (Diagnostics resp0) (fst (ReadRequest.State_Get req)))
    \<and> (\<exists>i out.
          ParseInt (ValueString (OAuthTokenResourceModel.ID (snd (ReadRequest.State_Get req))))
            = Inr i
          \<and> ReadOAuthToken l (OAuthTokenResource.client r) i = Return (out, [rq]))"
  using assms
  by (auto simp: OAuthTokenResource_Read_def Let_def
      split: if_splits sum.splits exec.splits prod.splits option.splits)

lemma OAuthClientResource_Read_not_found:
  assumes "OAuthClientResource_Read l r req resp0 = Return (resp', [rq])"
    and "Do l rq = Inr hr" and "StatusCode hr = 404"
  shows "resp' = resp0\<lparr>Diagnostics := Append (Diagnostics resp0) (fst (ReadRequest.State_Get req)),
                       State := None\<rparr>"
proof -
  from OAuthClientResource_Read_sent [OF assms(1)] obtain i out where
    ok: "\<not> HasError (Append (Diagnostics resp0) (fst (ReadRequest.State_Get req)))"
    and p: "ParseInt (ValueString (OAuthClientResourceModel.ID (snd (ReadRequest.State_Get req))))
              = Inr i"
    and c: "ReadOAuthClient l (OAuthClientResource.client r) i = Return (out, [rq])"
    by blast
  from ReadOAuthClient_sent [OF c assms(2)] assms(3) have "out = (None, None)" by simp
  with ok p c assms(1) show ?thesis
    by (simp add: OAuthClientResource_Read_def Let_def)
qed

lemma OAuthTokenResource_Read_not_found:
  assumes "OAuthTokenResource_Read l r req resp0 = Return (resp', [rq])"
    and "Do l rq = Inr hr" and "StatusCode hr = 404"
  shows "resp' = resp0\<lparr>Diagnostics := Append (Diagnostics resp0) (fst (ReadRequest.State_Get req)),
                       State := None\<rparr>"
proof -
  from OAuthTokenResource_Read_sent [OF assms(1)] obtain i out where
    ok: "\<not> HasError (Append (Diagnostics resp0) (fst (ReadRequest.State_Get req)))"
    and p: "ParseInt (ValueString (OAuthTokenResourceModel.ID (snd (ReadRequest.State_Get req))))
              = Inr i"
    and c: "ReadOAuthToken l (OAuthTokenResource.client r) i = Return (out, [rq])"
    by blast
  from ReadOAuthToken_sent [OF c assms(2)] assms(3) have "out = (None, None)" by simp
  with ok p c assms(1) show ?thesis
    by (simp add: OAuthTokenResource_Read_def Let_def)
qed

text \<open>
  C2. For both resource kinds: a read of the API client whose request is answered with
  status 404 returns neither a record nor an error, and the read of the resource then
  takes the resource out of the state and adds no diagnostic; a read answered with any
  status other than 200 and 404 returns an error.
\<close>

theorem read_not_found_removes_resource:
  "(ReadOAuthClient l cp i = Return (out, [rq]) \<and> Do l rq = Inr hr \<and> StatusCode hr = 404
      \<longrightarrow> out = (None, None))
   \<and> (ReadOAuthToken l cp i = Return (tout, [rq]) \<and> Do l rq = Inr hr \<and> StatusCode hr = 404
      \<longrightarrow> tout = (None, None))
   \<and> (OAuthClientResource_Read l r req resp0 = Return (resp', [rq]) \<and> Do l rq = Inr hr
        \<and> StatusCode hr = 404
      \<longrightarrow> State resp' = None
          \<and> Diagnostics resp' = Append (Diagnostics resp0) (fst (ReadRequest.State_Get req))
          \<and> \<not> HasError (Diagnostics resp'))
   \<and> (OAuthTokenResource_Read l tr treq tresp0 = Return (tresp', [rq]) \<and> Do l rq = Inr hr
        \<and> StatusCode hr = 404
      \<longrightarrow> State tresp' = None
          \<and> Diagnostics tresp' = Append (Diagnostics tresp0) (fst (ReadRequest.State_Get treq))
          \<and> \<not> HasError (Diagnostics tresp'))
   \<and> (ReadOAuthClient l cp i = Return (out, [rq]) \<and> Do l rq = Inr hr
        \<and> StatusCode hr \<noteq> 200 \<and> StatusCode hr \<noteq> 404
      \<longrightarrow> fst out = None \<and> snd out \<noteq> None)
   \<and> (ReadOAuthToken l cp i = Return (tout, [rq]) \<and> Do l rq = Inr hr
        \<and> StatusCode hr \<noteq> 200 \<and> StatusCode hr \<noteq> 404
      \<longrightarrow> fst tout = None \<and> snd tout \<noteq> None)"
proof -
  have a: "out = (None, None)"
    if "ReadOAuthClient l cp i = Return (out, [rq]) \<and> Do l rq = Inr hr \<and> StatusCode hr = 404"
    using that ReadOAuthClient_sent [of l cp i out rq hr] by simp
  have b: "tout = (None, None)"
    if "ReadOAuthToken l cp i = Return (tout, [rq]) \<and> Do l rq = Inr hr \<and> StatusCode hr = 404"
    using that ReadOAuthToken_sent [of l cp i tout rq hr] by simp
  have c: "State resp' = None
          \<and> Diagnostics resp' = Append (Diagnostics resp0) (fst (ReadRequest.State_Get req))
          \<and> \<not> HasError (Diagnostics resp')"
    if h: "OAuthClientResource_Read l r req resp0 = Return (resp', [rq]) \<and> Do l rq = Inr hr
        \<and> StatusCode hr = 404"
  proof -
    from h have "resp' = resp0\<lparr>Diagnostics :=
        Append (Diagnostics resp0) (fst (ReadRequest.State_Get req)), State := None\<rparr>"
      using OAuthClientResource_Read_not_found [of l r req resp0 resp' rq hr] by simp
    moreover from h have
      "\<not> HasError (Append (Diagnostics resp0) (fst (ReadRequest.State_Get req)))"
      using OAuthClientResource_Read_sent [of l r req resp0 resp' rq] by simp
    ultimately show ?thesis by simp
  qed
  have d: "State tresp' = None
          \<and> Diagnostics tresp' = Append (Diagnostics tresp0) (fst (ReadRequest.State_Get treq))
          \<and> \<not> HasError (Diagnostics tresp')"
    if h: "OAuthTokenResource_Read l tr treq tresp0 = Return (tresp', [rq]) \<and> Do l rq = Inr hr
        \<and> StatusCode hr = 404"
  proof -
    from h have "tresp' = tresp0\<lparr>Diagnostics :=
        Append (Diagnostics tresp0) (fst (ReadRequest.State_Get treq)), State := None\<rparr>"
      using OAuthTokenResource_Read_not_found [of l tr treq tresp0 tresp' rq hr] by simp
    moreover from h have
      "\<not> HasError (Append (Diagnostics tresp0) (fst (ReadRequest.State_Get treq)))"
      using OAuthTokenResource_Read_sent [of l tr treq tresp0 tresp' rq] by simp
    ultimately show ?thesis by simp
  qed
  have e: "fst out = None \<and> snd out \<noteq> None"
    if "ReadOAuthClient l cp i = Return (out, [rq]) \<and> Do l rq = Inr hr
        \<and> StatusCode hr \<noteq> 200 \<and> StatusCode hr \<noteq> 404"
    using that ReadOAuthClient_sent [of l cp i out rq hr] by simp
  have f: "fst tout = None \<and> snd tout \<noteq> None"
    if "ReadOAuthToken l cp i = Return (tout, [rq]) \<and> Do l rq = Inr hr
        \<and> StatusCode hr \<noteq> 200 \<and> StatusCode hr \<noteq> 404"
    using that ReadOAuthToken_sent [of l cp i tout rq hr] by simp
  from a b c d e f show ?thesis by blast
qed

theorem read_not_found_removes_resource_witness:
  "(\<exists>rq. OAuthClientResource_Read (fixed_server 404 [] JNull) client_resource
            \<lparr>ReadRequest.State_Get = ([], client_model ''7'')\<rparr> (tracked (client_model ''7''))
          = Return (untracked, [rq]))
   \<and> (\<exists>rq. OAuthTokenResource_Read (fixed_server 404 [] JNull) token_resource
            \<lparr>ReadRequest.State_Get = ([], token_model ''8'' ''7'')\<rparr>
            (tracked (token_model ''8'' ''7''))
          = Return (untracked, [rq]))
   \<and> (\<exists>rq. ReadOAuthClient (fixed_server 404 [] JNull) (Some acme) 7
          = Return ((None, None), [rq]))
   \<and> (\<exists>rq. ReadOAuthToken (fixed_server 404 [] JNull) (Some acme) 8
          = Return ((None, None), [rq]))
   \<and> (\<exists>rq e. ReadOAuthClient (fixed_server 500 ''boom'' JNull) (Some acme) 7
          = Return ((None, Some e), [rq]))
   \<and> (\<exists>rq e. ReadOAuthToken (fixed_server 500 ''boom'' JNull) (Some acme) 8
          = Return ((None, Some e), [rq]))"
proof -
  let ?S = "fixed_server 404 [] JNull"
  let ?hr = "\<lparr>StatusCode = 404, RespBody = []\<rparr>"
  let ?E = "fixed_server 500 ''boom'' JNull"
  let ?he = "\<lparr>StatusCode = 500, RespBody = ''boom''\<rparr>"
  have answer: "Do ?S rq = Inr ?hr" "Do ?E rq = Inr ?he" for rq
    by (simp_all add: fixed_server_def)
  note claim = read_not_found_removes_resource [where l = ?S and hr = ?hr]
  note claim_e = read_not_found_removes_resource [where l = ?E and hr = ?he and cp = "Some acme"]
  let ?creq = "\<lparr>ReadRequest.State_Get = ([], client_model ''7'')\<rparr>"
  have "\<exists>resp' rq. OAuthClientResource_Read ?S client_resource ?creq (tracked (client_model ''7''))
          = Return (resp', [rq])"
    by (simp add: OAuthClientResource_Read_def ReadOAuthClient_def run_defs parse_defs
        example_defs HasError_def)
  then obtain c1 r1 where
    1: "OAuthClientResource_Read ?S client_resource ?creq (tracked (client_model ''7''))
          = Return (c1, [r1])" by blast
  with claim [where r = client_resource and req = ?creq
      and ?resp0.0 = "tracked (client_model ''7'')" and resp' = c1 and rq = r1] answer(1) [of r1]
  have "State c1 = None \<and> Diagnostics c1 = []"
    by (simp add: tracked_def)
  then have "c1 = untracked"
    by (simp add: untracked_def)
  with 1 have a: "\<exists>rq. OAuthClientResource_Read ?S client_resource ?creq
      (tracked (client_model ''7'')) = Return (untracked, [rq])"
    by blast
  let ?treq = "\<lparr>ReadRequest.State_Get = ([], token_model ''8'' ''7'')\<rparr>"
  have "\<exists>resp' rq. OAuthTokenResource_Read ?S token_resource ?treq
          (tracked (token_model ''8'' ''7'')) = Return (resp', [rq])"
    by (simp add: OAuthTokenResource_Read_def ReadOAuthToken_def run_defs parse_defs
        example_defs HasError_def)
  then obtain c2 r2 where
    2: "OAuthTokenResource_Read ?S token_resource ?treq (tracked (token_model ''8'' ''7''))
          = Return (c2, [r2])" by blast
  with claim [where tr = token_resource and treq = ?treq
      and ?tresp0.0 = "tracked (token_model ''8'' ''7'')" and tresp' = c2 and rq = r2]
    answer(1) [of r2]
  have "State c2 = None \<and> Diagnostics c2 = []"
    by (simp add: tracked_def)
  then have "c2 = untracked"
    by (simp add: untracked_def)
  with 2 have b: "\<exists>rq. OAuthTokenResource_Read ?S token_resource ?treq
      (tracked (token_model ''8'' ''7'')) = Return (untracked, [rq])"
    by blast
  have "\<exists>out rq. ReadOAuthClient ?E (Some acme) 7 = Return (out, [rq])"
    by (simp add: ReadOAuthClient_def run_defs)
  then obtain o3 r3 where 3: "ReadOAuthClient ?E (Some acme) 7 = Return (o3, [r3])" by blast
  with claim_e [where i = 7 and out = o3 and rq = r3] answer(2) [of r3]
  have "fst o3 = None \<and> snd o3 \<noteq> None" by simp
  then have "\<exists>e. o3 = (None, Some e)" by (cases o3) auto
  with 3 have c: "\<exists>rq e. ReadOAuthClient ?E (Some acme) 7 = Return ((None, Some e), [rq])"
    by auto
  have "\<exists>out rq. ReadOAuthToken ?E (Some acme) 8 = Return (out, [rq])"
    by (simp add: ReadOAuthToken_def run_defs)
  then obtain o4 r4 where 4: "ReadOAuthToken ?E (Some acme) 8 = Return (o4, [r4])" by blast
  with claim_e [where i = 8 and tout = o4 and rq = r4] answer(2) [of r4]
  have "fst o4 = None \<and> snd o4 \<noteq> None" by simp
  then have "\<exists>e. o4 = (None, Some e)" by (cases o4) auto
  with 4 have d: "\<exists>rq e. ReadOAuthToken ?E (Some acme) 8 = Return ((None, Some e), [rq])"
    by auto
  have "\<exists>out rq. ReadOAuthClient ?S (Some acme) 7 = Return (out, [rq])"
    by (simp add: ReadOAuthClient_def run_defs)
  then obtain o5 r5 where 5: "ReadOAuthClient ?S (Some acme) 7 = Return (o5, [r5])" by blast
  with claim [where cp = "Some acme" and i = 7 and out = o5 and rq = r5] answer(1) [of r5]
  have "o5 = (None, None)" by simp
  with 5 have e: "\<exists>rq. ReadOAuthClient ?S (Some acme) 7 = Return ((None, None), [rq])"
    by auto
  have "\<exists>out rq. ReadOAuthToken ?S (Some acme) 8 = Return (out, [rq])"
    by (simp add: ReadOAuthToken_def run_defs)
  then obtain o6 r6 where 6: "ReadOAuthToken ?S (Some acme) 8 = Return (o6, [r6])" by blast
  with claim [where cp = "Some acme" and i = 8 and tout = o6 and rq = r6] answer(1) [of r6]
  have "o6 = (None, None)" by simp
  with 6 have f: "\<exists>rq. ReadOAuthToken ?S (Some acme) 8 = Return ((None, None), [rq])"
    by auto
  from a b c d e f show ?thesis by blast
qed

text \<open>
  C3. For each of the six operations of the API client: when the request has been sent
  and the response has a status other than the expected one (201 for create, 200 for
  read, 204 for delete), and other than 404 for the reads, the operation returns an
  error whose message is its fixed prefix followed by the response body as received.
\<close>

theorem unexpected_status_carries_body:
  "(CreateOAuthClient l cp n idf k d = Return (out, [rq]) \<and> Do l rq = Inr hr
      \<and> StatusCode hr \<noteq> 201
      \<longrightarrow> out = (None, Some (''failed to create OAuth client: '' @ RespBody hr)))
   \<and> (ReadOAuthClient l cp i = Return (out, [rq]) \<and> Do l rq = Inr hr
      \<and> StatusCode hr \<noteq> 200 \<and> StatusCode hr \<noteq> 404
      \<longrightarrow> out = (None, Some (''failed to read OAuth client: '' @ RespBody hr)))
   \<and> (DeleteOAuthClient l cp i = Return (err, [rq]) \<and> Do l rq = Inr hr
      \<and> StatusCode hr \<noteq> 204
      \<longrightarrow> err = Some (''failed to delete OAuth client: '' @ RespBody hr))
   \<and> (CreateOAuthToken l cp ci sc ex = Return (tout, [rq]) \<and> Do l rq = Inr hr
      \<and> StatusCode hr \<noteq> 201
      \<longrightarrow> tout = (None, Some (''failed to create OAuth token: '' @ RespBody hr)))
   \<and> (ReadOAuthToken l cp i = Return (tout, [rq]) \<and> Do l rq = Inr hr
      \<and> StatusCode hr \<noteq> 200 \<and> StatusCode hr \<noteq> 404
      \<longrightarrow> tout = (None, Some (''failed to read OAuth token: '' @ RespBody hr)))
   \<and> (DeleteOAuthToken l cp i = Return (err, [rq]) \<and> Do l rq = Inr hr
      \<and> StatusCode hr \<noteq> 204
      \<longrightarrow> err = Some (''failed to delete OAuth token: '' @ RespBody hr))"
proof (intro conjI impI)
  assume "CreateOAuthClient l cp n idf k d = Return (out, [rq]) \<and> Do l rq = Inr hr
      \<and> StatusCode hr \<noteq> 201"
  then show "out = (None, Some (''failed to create OAuth client: '' @ RespBody hr))"
    using CreateOAuthClient_sent [of l cp n idf k d out rq hr] by simp
next
  assume "ReadOAuthClient l cp i = Return (out, [rq]) \<and> Do l rq = Inr hr
      \<and> StatusCode hr \<noteq> 200 \<and> StatusCode hr \<noteq> 404"
  then show "out = (None, Some (''failed to read OAuth client: '' @ RespBody hr))"
    using ReadOAuthClient_sent [of l cp i out rq hr] by simp
next
  assume "DeleteOAuthClient l cp i = Return (err, [rq]) \<and> Do l rq = Inr hr
      \<and> StatusCode hr \<noteq> 204"
  then show "err = Some (''failed to delete OAuth client: '' @ RespBody hr)"
    using DeleteOAuthClient_sent [of l cp i err rq hr] by simp
next
  assume "CreateOAuthToken l cp ci sc ex = Return (tout, [rq]) \<and> Do l rq = Inr hr
      \<and> StatusCode hr \<noteq> 201"
  then show "tout = (None, Some (''failed to create OAuth token: '' @ RespBody hr))"
    using CreateOAuthToken_sent [of l cp ci sc ex tout rq hr] by simp
next
  assume "ReadOAuthToken l cp i = Return (tout, [rq]) \<and> Do l rq = Inr hr
      \<and> StatusCode hr \<noteq> 200 \<and> StatusCode hr \<noteq> 404"
  then show "tout = (None, Some (''failed to read OAuth token: '' @ RespBody hr))"
    using ReadOAuthToken_sent [of l cp i tout rq hr] by simp
next
  assume "DeleteOAuthToken l cp i = Return (err, [rq]) \<and> Do l rq = Inr hr
      \<and> StatusCode hr \<noteq> 204"
  then show "err = Some (''failed to delete OAuth token: '' @ RespBody hr)"
    using DeleteOAuthToken_sent [of l cp i err rq hr] by simp
qed

theorem unexpected_status_carries_body_witness:
  "(\<exists>rq. CreateOAuthClient (fixed_server 500 ''boom'' JNull) (Some acme) ''n'' ''i'' ''k'' ''d''
            = Return ((None, Some ''failed to create OAuth client: boom''), [rq]))
   \<and> (\<exists>rq. ReadOAuthClient (fixed_server 500 ''boom'' JNull) (Some acme) 7
            = Return ((None, Some ''failed to read OAuth client: boom''), [rq]))
   \<and> (\<exists>rq. DeleteOAuthClient (fixed_server 500 ''boom'' JNull) (Some acme) 7
            = Return (Some ''failed to delete OAuth client: boom'', [rq]))
   \<and> (\<exists>rq. CreateOAuthToken (fixed_server 500 ''boom'' JNull) (Some acme) 7 (Some [''read'']) []
            = Return ((None, Some ''failed to create OAuth token: boom''), [rq]))
   \<and> (\<exists>rq. ReadOAuthToken (fixed_server 500 ''boom'' JNull) (Some acme) 7
            = Return ((None, Some ''failed to read OAuth token: boom''), [rq]))
   \<and> (\<exists>rq. DeleteOAuthToken (fixed_server 500 ''boom'' JNull) (Some acme) 7
            = Return (Some ''failed to delete OAuth token: boom'', [rq]))"
proof -
  let ?S = "fixed_server 500 ''boom'' JNull"
  let ?hr = "\<lparr>StatusCode = 500, RespBody = ''boom''\<rparr>"
  have answer: "Do ?S rq = Inr ?hr" for rq
    by (simp add: fixed_server_def)
  note claim = unexpected_status_carries_body [where l = ?S and cp = "Some acme" and hr = ?hr]
  have "\<exists>out rq. CreateOAuthClient ?S (Some acme) ''n'' ''i'' ''k'' ''d'' = Return (out, [rq])"
    by (simp add: CreateOAuthClient_def run_defs)
  then obtain o1 r1 where
    "CreateOAuthClient ?S (Some acme) ''n'' ''i'' ''k'' ''d'' = Return (o1, [r1])" by blast
  with claim [where n = "''n''" and idf = "''i''" and k = "''k''" and d = "''d''"
      and out = o1 and rq = r1] answer [of r1]
  have c1: "\<exists>rq. CreateOAuthClient ?S (Some acme) ''n'' ''i'' ''k'' ''d''
            = Return ((None, Some ''failed to create OAuth client: boom''), [rq])"
    by auto
  have "\<exists>out rq. ReadOAuthClient ?S (Some acme) 7 = Return (out, [rq])"
    by (simp add: ReadOAuthClient_def run_defs)
  then obtain o2 r2 where "ReadOAuthClient ?S (Some acme) 7 = Return (o2, [r2])" by blast
  with claim [where i = 7 and out = o2 and rq = r2] answer [of r2]
  have c2: "\<exists>rq. ReadOAuthClient ?S (Some acme) 7
            = Return ((None, Some ''failed to read OAuth client: boom''), [rq])"
    by auto
  have "\<exists>err rq. DeleteOAuthClient ?S (Some acme) 7 = Return (err, [rq])"
    by (simp add: DeleteOAuthClient_def run_defs)
  then obtain e3 r3 where "DeleteOAuthClient ?S (Some acme) 7 = Return (e3, [r3])" by blast
  with claim [where i = 7 and err = e3 and rq = r3] answer [of r3]
  have c3: "\<exists>rq. DeleteOAuthClient ?S (Some acme) 7
            = Return (Some ''failed to delete OAuth client: boom'', [rq])"
    by auto
  have "\<exists>out rq. CreateOAuthToken ?S (Some acme) 7 (Some [''read'']) [] = Return (out, [rq])"
    by (simp add: CreateOAuthToken_def run_defs)
  then obtain o4 r4 where
    "CreateOAuthToken ?S (Some acme) 7 (Some [''read'']) [] = Return (o4, [r4])" by blast
  with claim [where ci = 7 and sc = "Some [''read'']" and ex = "[]" and tout = o4 and rq = r4]
    answer [of r4]
  have c4: "\<exists>rq. CreateOAuthToken ?S (Some acme) 7 (Some [''read'']) []
            = Return ((None, Some ''failed to create OAuth token: boom''), [rq])"
    by auto
  have "\<exists>out rq. ReadOAuthToken ?S (Some acme) 7 = Return (out, [rq])"
    by (simp add: ReadOAuthToken_def run_defs)
  then obtain o5 r5 where "ReadOAuthToken ?S (Some acme) 7 = Return (o5, [r5])" by blast
  with claim [where i = 7 and tout = o5 and rq = r5] answer [of r5]
  have c5: "\<exists>rq. ReadOAuthToken ?S (Some acme) 7
            = Return ((None, Some ''failed to read OAuth token: boom''), [rq])"
    by auto
  have "\<exists>err rq. DeleteOAuthToken ?S (Some acme) 7 = Return (err, [rq])"
    by (simp add: DeleteOAuthToken_def run_defs)
  then obtain e6 r6 where "DeleteOAuthToken ?S (Some acme) 7 = Return (e6, [r6])" by blast
  with claim [where i = 7 and err = e6 and rq = r6] answer [of r6]
  have c6: "\<exists>rq. DeleteOAuthToken ?S (Some acme) 7
            = Return (Some ''failed to delete OAuth token: boom'', [rq])"
    by auto
  from c1 c2 c3 c4 c5 c6 show ?thesis by blast
qed

text \<open>
  C4. For both resource kinds, for every resource, request and response: the update
  returns without sending a request (it does not even take the libraries), its response
  holds the error diagnostic with the summary ``Update Not Supported'' and the fixed
  detail, and the state of the response is left as it was.
\<close>

theorem update_always_rejected:
  "(\<exists>resp'. OAuthClientResource_Update r req resp = Return (resp', [])
       \<and> ErrorDiagnostic ''Update Not Supported''
            ''The Zendesk API does not support updating OAuth clients. To change the configuration, you must create a new client.''
           \<in> set (Diagnostics resp')
       \<and> HasError (Diagnostics resp')
       \<and> State resp' = State resp)
   \<and> (\<exists>tresp'. OAuthTokenResource_Update tr treq tresp = Return (tresp', [])
       \<and> ErrorDiagnostic ''Update Not Supported''
            ''The Zendesk API does not support updating OAuth tokens. To change the configuration, you must create a new token.''
           \<in> set (Diagnostics tresp')
       \<and> HasError (Diagnostics tresp')
       \<and> State tresp' = State tresp)"
  by (simp add: OAuthClientResource_Update_def OAuthTokenResource_Update_def
      AddError_mem HasError_AddError)

theorem update_always_rejected_witness:
  "(\<exists>resp'. OAuthClientResource_Update client_resource
        \<lparr>UpdateRequest.Plan_Get = ([], client_model ''7''),
         UpdateRequest.State_Get = ([], client_model ''7'')\<rparr>
        (tracked (client_model ''7'')) = Return (resp', [])
       \<and> HasError (Diagnostics resp') \<and> State resp' = Some (client_model ''7''))
   \<and> (\<exists>tresp'. OAuthTokenResource_Update token_resource
        \<lparr>UpdateRequest.Plan_Get = ([], token_model ''8'' ''7''),
         UpdateRequest.State_Get = ([], token_model ''8'' ''7'')\<rparr>
        (tracked (token_model ''8'' ''7'')) = Return (tresp', [])
       \<and> HasError (Diagnostics tresp') \<and> State tresp' = Some (token_model ''8'' ''7''))"
  using update_always_rejected [of client_resource
      "\<lparr>UpdateRequest.Plan_Get = ([], client_model ''7''),
        UpdateRequest.State_Get = ([], client_model ''7'')\<rparr>"
      "tracked (client_model ''7'')" token_resource
      "\<lparr>UpdateRequest.Plan_Get = ([], token_model ''8'' ''7''),
        UpdateRequest.State_Get = ([], token_model ''8'' ''7'')\<rparr>"
      "tracked (token_model ''8'' ''7'')"]
  by (auto simp: tracked_def)

text \<open>
  C5. For both resources, when reading the plan reported no error (and, for the token,
  the client id parsed): if the create of the API client returns a record, the create of
  the resource stores the plan with the id set to the decimal form of the record's id
  and with the echoed fields set from the record (description for a client; full token
  and expiry for a token); if it returns an error, the response gains the error
  diagnostic for it and its state stays as it was.
\<close>

theorem create_writes_state_only_on_success:
  "(\<not> HasError (Append (Diagnostics resp0) ds)
      \<and> CreateOAuthClient l (OAuthClientResource.client r)
            (ValueString (OAuthClientResourceModel.Name plan))
            (ValueString (OAuthClientResourceModel.Identifier plan))
            (ValueString (OAuthClientResourceModel.Kind plan))
            (ValueString (OAuthClientResourceModel.Description plan))
          = Return ((Some cl, None), sent)
      \<longrightarrow> OAuthClientResource_Create l r \<lparr>CreateRequest.Plan_Get = (ds, plan)\<rparr> resp0
          = Return (resp0\<lparr>Diagnostics := Append (Diagnostics resp0) ds,
                          State := Some (plan
                            \<lparr>OAuthClientResourceModel.ID := StringValue (FormatInt (OAuthClient.ID cl)),
                             OAuthClientResourceModel.Description :=
                               StringValue (OAuthClient.Description cl)\<rparr>)\<rparr>, sent))
   \<and> (\<not> HasError (Append (Diagnostics resp0) ds)
      \<and> CreateOAuthClient l (OAuthClientResource.client r)
            (ValueString (OAuthClientResourceModel.Name plan))
            (ValueString (OAuthClientResourceModel.Identifier plan))
            (ValueString (OAuthClientResourceModel.Kind plan))
            (ValueString (OAuthClientResourceModel.Description plan))
          = Return ((x, Some err), sent)
      \<longrightarrow> (\<exists>resp'. OAuthClientResource_Create l r \<lparr>CreateRequest.Plan_Get = (ds, plan)\<rparr> resp0
                    = Return (resp', sent)
            \<and> State resp' = State resp0
            \<and> HasError (Diagnostics resp')
            \<and> ErrorDiagnostic ''Error Creating OAuth Client''
                 (''Could not create OAuth client: '' @ err) \<in> set (Diagnostics resp')))
   \<and> (\<not> HasError (Append (Diagnostics tresp0) ds)
      \<and> ParseInt (ValueString (OAuthTokenResourceModel.ClientID tplan)) = Inr ci
      \<and> CreateOAuthToken l (OAuthTokenResource.client tr) ci
            (Some (map ValueString (elems (OAuthTokenResourceModel.Scopes tplan))))
            (ValueString (OAuthTokenResourceModel.ExpiresAt tplan))
          = Return ((Some tk, None), sent)
      \<longrightarrow> OAuthTokenResource_Create l tr \<lparr>CreateRequest.Plan_Get = (ds, tplan)\<rparr> tresp0
          = Return (tresp0\<lparr>Diagnostics := Append (Diagnostics tresp0) ds,
                           State := Some (tplan
                             \<lparr>OAuthTokenResourceModel.ID := StringValue (FormatInt (OAuthToken.ID tk)),
                              OAuthTokenResourceModel.FullToken :=
                                StringValue (OAuthToken.FullToken tk),
                              OAuthTokenResourceModel.ExpiresAt :=
                                StringValue (OAuthToken.ExpiresAt tk)\<rparr>)\<rparr>, sent))
   \<and> (\<not> HasError (Append (Diagnostics tresp0) ds)
      \<and> ParseInt (ValueString (OAuthTokenResourceModel.ClientID tplan)) = Inr ci
      \<and> CreateOAuthToken l (OAuthTokenResource.client tr) ci
            (Some (map ValueString (elems (OAuthTokenResourceModel.Scopes tplan))))
            (ValueString (OAuthTokenResourceModel.ExpiresAt tplan))
          = Return ((tx, Some err), sent)
      \<longrightarrow> (\<exists>resp'. OAuthTokenResource_Create l tr \<lparr>CreateRequest.Plan_Get = (ds, tplan)\<rparr> tresp0
                    = Return (resp', sent)
            \<and> State resp' = State tresp0
            \<and> HasError (Diagnostics resp')
            \<and> ErrorDiagnostic ''Error Creating OAuth Token''
                 (''Could not create OAuth token: '' @ err) \<in> set (Diagnostics resp')))"
  by (auto simp: OAuthClientResource_Create_def OAuthTokenResource_Create_def Let_def
      AddError_mem HasError_AddError split: option.splits)

theorem create_writes_state_only_on_success_witness:
  "(\<exists>rq. OAuthClientResource_Create (fixed_server 201 [] client_json) client_resource
        \<lparr>CreateRequest.Plan_Get = ([], client_plan)\<rparr> untracked
      = Return (tracked ((client_model ''42'')
                  \<lparr>OAuthClientResourceModel.Description := StringValue ''echo''\<rparr>), [rq]))
   \<and> (\<exists>resp' rq. OAuthClientResource_Create (fixed_server 500 ''boom'' JNull) client_resource
        \<lparr>CreateRequest.Plan_Get = ([], client_plan)\<rparr> untracked = Return (resp', [rq])
      \<and> State resp' = None \<and> HasError (Diagnostics resp'))
   \<and> (\<exists>rq. OAuthTokenResource_Create (fixed_server 201 [] token_json) token_resource
        \<lparr>CreateRequest.Plan_Get = ([], token_plan ''42'')\<rparr> untracked
      = Return (tracked ((token_model ''8'' ''42'')
                  \<lparr>OAuthTokenResourceModel.FullToken := StringValue ''s3cr3t'',
                   OAuthTokenResourceModel.ExpiresAt := StringValue ''2025-01-01T00:00:00Z''\<rparr>),
                [rq]))
   \<and> (\<exists>resp' rq. OAuthTokenResource_Create (fixed_server 500 ''boom'' JNull) token_resource
        \<lparr>CreateRequest.Plan_Get = ([], token_plan ''42'')\<rparr> untracked = Return (resp', [rq])
      \<and> State resp' = None \<and> HasError (Diagnostics resp'))"
proof -
  let ?S = "fixed_server 201 [] client_json" and ?T = "fixed_server 201 [] token_json"
  let ?E = "fixed_server 500 ''boom'' JNull"
  note claim = create_writes_state_only_on_success [where ds = "[]" and r = client_resource
      and tr = token_resource and plan = client_plan and tplan = "token_plan ''42''"
      and ?resp0.0 = untracked and ?tresp0.0 = untracked and ci = 42]
  have quiet:
    "\<not> HasError (Append (Diagnostics (untracked :: OAuthClientResourceModel Response)) [])"
    "\<not> HasError (Append (Diagnostics (untracked :: OAuthTokenResourceModel Response)) [])"
    by (simp_all add: untracked_def HasError_def)
  have p: "ParseInt (ValueString (OAuthTokenResourceModel.ClientID (token_plan ''42''))) = Inr 42"
    by (simp add: example_defs parse_defs)
  have "\<exists>cl rq. CreateOAuthClient ?S (OAuthClientResource.client client_resource)
            (ValueString (OAuthClientResourceModel.Name client_plan))
            (ValueString (OAuthClientResourceModel.Identifier client_plan))
            (ValueString (OAuthClientResourceModel.Kind client_plan))
            (ValueString (OAuthClientResourceModel.Description client_plan))
          = Return ((Some cl, None), [rq])
        \<and> OAuthClient.ID cl = 42 \<and> OAuthClient.Description cl = ''echo''"
    by (simp add: CreateOAuthClient_def run_defs decode_defs parse_defs example_defs)
  then obtain cl r1 where
    1: "CreateOAuthClient ?S (OAuthClientResource.client client_resource)
            (ValueString (OAuthClientResourceModel.Name client_plan))
            (ValueString (OAuthClientResourceModel.Identifier client_plan))
            (ValueString (OAuthClientResourceModel.Kind client_plan))
            (ValueString (OAuthClientResourceModel.Description client_plan))
          = Return ((Some cl, None), [r1])"
    and v1: "OAuthClient.ID cl = 42" "OAuthClient.Description cl = ''echo''"
    by blast
  note claim [where l = ?S and cl = cl and sent = "[r1]", THEN conjunct1, THEN mp,
      OF conjI [OF quiet(1) 1]]
  then have a: "\<exists>rq. OAuthClientResource_Create ?S client_resource
        \<lparr>CreateRequest.Plan_Get = ([], client_plan)\<rparr> untracked
      = Return (tracked ((client_model ''42'')
                  \<lparr>OAuthClientResourceModel.Description := StringValue ''echo''\<rparr>), [rq])"
    by (simp add: v1 example_defs format_defs)
  have "\<exists>x err rq. CreateOAuthClient ?E (OAuthClientResource.client client_resource)
            (ValueString (OAuthClientResourceModel.Name client_plan))
            (ValueString (OAuthClientResourceModel.Identifier client_plan))
            (ValueString (OAuthClientResourceModel.Kind client_plan))
            (ValueString (OAuthClientResourceModel.Description client_plan))
          = Return ((x, Some err), [rq])"
    by (simp add: CreateOAuthClient_def run_defs example_defs)
  then obtain x e2 r2 where
    2: "CreateOAuthClient ?E (OAuthClientResource.client client_resource)
            (ValueString (OAuthClientResourceModel.Name client_plan))
            (ValueString (OAuthClientResourceModel.Identifier client_plan))
            (ValueString (OAuthClientResourceModel.Kind client_plan))
            (ValueString (OAuthClientResourceModel.Description client_plan))
          = Return ((x, Some e2), [r2])"
    by blast
  from claim [where l = ?E and x = x and err = e2 and sent = "[r2]",
      THEN conjunct2, THEN conjunct1] quiet 2
  have b: "\<exists>resp' rq. OAuthClientResource_Create ?E client_resource
        \<lparr>CreateRequest.Plan_Get = ([], client_plan)\<rparr> untracked = Return (resp', [rq])
      \<and> State resp' = None \<and> HasError (Diagnostics resp')"
    by (auto simp: untracked_def)
  have "\<exists>tk rq. CreateOAuthToken ?T (OAuthTokenResource.client token_resource) 42
            (Some (map ValueString (elems (OAuthTokenResourceModel.Scopes (token_plan ''42'')))))
            (ValueString (OAuthTokenResourceModel.ExpiresAt (token_plan ''42'')))
          = Return ((Some tk, None), [rq])
        \<and> OAuthToken.ID tk = 8 \<and> OAuthToken.FullToken tk = ''s3cr3t''
        \<and> OAuthToken.ExpiresAt tk = ''2025-01-01T00:00:00Z''"
    by (simp add: CreateOAuthToken_def run_defs decode_defs parse_defs example_defs)
  then obtain tk r3 where
    3: "CreateOAuthToken ?T (OAuthTokenResource.client token_resource) 42
            (Some (map ValueString (elems (OAuthTokenResourceModel.Scopes (token_plan ''42'')))))
            (ValueString (OAuthTokenResourceModel.ExpiresAt (token_plan ''42'')))
          = Return ((Some tk, None), [r3])"
    and v3: "OAuthToken.ID tk = 8" "OAuthToken.FullToken tk = ''s3cr3t''"
      "OAuthToken.ExpiresAt tk = ''2025-01-01T00:00:00Z''"
    by blast
  note claim [where l = ?T and tk = tk and sent = "[r3]",
      THEN conjunct2, THEN conjunct2, THEN conjunct1, THEN mp,
      OF conjI [OF quiet(2) conjI [OF p 3]]]
  then have c: "\<exists>rq. OAuthTokenResource_Create ?T token_resource
        \<lparr>CreateRequest.Plan_Get = ([], token_plan ''42'')\<rparr> untracked
      = Return (tracked ((token_model ''8'' ''42'')
                  \<lparr>OAuthTokenResourceModel.FullToken := StringValue ''s3cr3t'',
                   OAuthTokenResourceModel.ExpiresAt := StringValue ''2025-01-01T00:00:00Z''\<rparr>),
                [rq])"
    by (simp add: v3 example_defs format_defs)
  have "\<exists>x err rq. CreateOAuthToken ?E (OAuthTokenResource.client token_resource) 42
            (Some (map ValueString (elems (OAuthTokenResourceModel.Scopes (token_plan ''42'')))))
            (ValueString (OAuthTokenResourceModel.ExpiresAt (token_plan ''42'')))
          = Return ((x, Some err), [rq])"
    by (simp add: CreateOAuthToken_def run_defs example_defs)
  then obtain tx e4 r4 where
    4: "CreateOAuthToken ?E (OAuthTokenResource.client token_resource) 42
            (Some (map ValueString (elems (OAuthTokenResourceModel.Scopes (token_plan ''42'')))))
            (ValueString (OAuthTokenResourceModel.ExpiresAt (token_plan ''42'')))
          = Return ((tx, Some e4), [r4])"
    by blast
  from claim [where l = ?E and tx = tx and err = e4 and sent = "[r4]",
      THEN conjunct2, THEN conjunct2, THEN conjunct2] quiet p 4
  have d: "\<exists>resp' rq. OAuthTokenResource_Create ?E token_resource
        \<lparr>CreateRequest.Plan_Get = ([], token_plan ''42'')\<rparr> untracked = Return (resp', [rq])
      \<and> State resp' = None \<and> HasError (Diagnostics resp')"
    by (auto simp: untracked_def)
  from a b c d show ?thesis by blast
qed

text \<open>
  C6. For the read and the delete of both resources, on the stored id, and for the
  create of the token resource, on the client id of the plan: when \<^verbatim>\<open>strconv.ParseInt\<close>
  rejects the string, the operation returns with an error diagnostic in its response,
  the state untouched and no request sent. Unless reading the state or plan had already
  reported an error, the diagnostic is the one for the parse failure.
\<close>

theorem unparsable_id_stops_before_any_request:
  "(ParseInt (ValueString (OAuthClientResourceModel.ID (snd (ReadRequest.State_Get req)))) = Inl e
      \<longrightarrow> (\<exists>resp'. OAuthClientResource_Read l r req resp0 = Return (resp', [])
            \<and> HasError (Diagnostics resp') \<and> State resp' = State resp0
            \<and> (HasError (Append (Diagnostics resp0) (fst (ReadRequest.State_Get req)))
                \<or> ErrorDiagnostic ''Error Parsing OAuth Client ID''
                     (''Could not parse OAuth client ID: '' @ NumError_Error (Quote l)
                        (ValueString (OAuthClientResourceModel.ID (snd (ReadRequest.State_Get req)))) e)
                   \<in> set (Diagnostics resp'))))
   \<and> (ParseInt (ValueString (OAuthClientResourceModel.ID (snd (DeleteRequest.State_Get dreq)))) = Inl e
      \<longrightarrow> (\<exists>resp'. OAuthClientResource_Delete l r dreq resp0 = Return (resp', [])
            \<and> HasError (Diagnostics resp') \<and> State resp' = State resp0
            \<and> (HasError (Append (Diagnostics resp0) (fst (DeleteRequest.State_Get dreq)))
                \<or> ErrorDiagnostic ''Error Parsing OAuth Client ID''
                     (''Could not parse OAuth client ID: '' @ NumError_Error (Quote l)
                        (ValueString (OAuthClientResourceModel.ID (snd (DeleteRequest.State_Get dreq)))) e)
                   \<in> set (Diagnostics resp'))))
   \<and> (ParseInt (ValueString (OAuthTokenResourceModel.ID (snd (ReadRequest.State_Get treq)))) = Inl e
      \<longrightarrow> (\<exists>resp'. OAuthTokenResource_Read l tr treq tresp0 = Return (resp', [])
            \<and> HasError (Diagnostics resp') \<and> State resp' = State tresp0
            \<and> (HasError (Append (Diagnostics tresp0) (fst (ReadRequest.State_Get treq)))
                \<or> ErrorDiagnostic ''Error Parsing OAuth Token ID''
                     (''Could not parse OAuth token ID: '' @ NumError_Error (Quote l)
                        (ValueString (OAuthTokenResourceModel.ID (snd (ReadRequest.State_Get treq)))) e)
                   \<in> set (Diagnostics resp'))))
   \<and> (ParseInt (ValueString (OAuthTokenResourceModel.ID (snd (DeleteRequest.State_Get tdreq)))) = Inl e
      \<longrightarrow> (\<exists>resp'. OAuthTokenResource_Delete l tr tdreq tresp0 = Return (resp', [])
            \<and> HasError (Diagnostics resp') \<and> State resp' = State tresp0
            \<and> (HasError (Append (Diagnostics tresp0) (fst (DeleteRequest.State_Get tdreq)))
                \<or> ErrorDiagnostic ''Error Parsing OAuth Token ID''
                     (''Could not parse OAuth token ID: '' @ NumError_Error (Quote l)
                        (ValueString (OAuthTokenResourceModel.ID (snd (DeleteRequest.State_Get tdreq)))) e)
                   \<in> set (Diagnostics resp'))))
   \<and> (ParseInt (ValueString (OAuthTokenResourceModel.ClientID (snd (CreateRequest.Plan_Get tcreq)))) = Inl e
      \<longrightarrow> (\<exists>resp'. OAuthTokenResource_Create l tr tcreq tresp0 = Return (resp', [])
            \<and> HasError (Diagnostics resp') \<and> State resp' = State tresp0
            \<and> (HasError (Append (Diagnostics tresp0) (fst (CreateRequest.Plan_Get tcreq)))
                \<or> ErrorDiagnostic ''Error Parsing Client ID''
                     (''Could not parse client ID: '' @ NumError_Error (Quote l)
                        (ValueString (OAuthTokenResourceModel.ClientID (snd (CreateRequest.Plan_Get tcreq)))) e)
                   \<in> set (Diagnostics resp'))))"
proof (intro conjI impI)
  assume "ParseInt (ValueString (OAuthClientResourceModel.ID (snd (ReadRequest.State_Get req)))) = Inl e"
  then show "\<exists>resp'. OAuthClientResource_Read l r req resp0 = Return (resp', [])
            \<and> HasError (Diagnostics resp') \<and> State resp' = State resp0
            \<and> (HasError (Append (Diagnostics resp0) (fst (ReadRequest.State_Get req)))
                \<or> ErrorDiagnostic ''Error Parsing OAuth Client ID''
                     (''Could not parse OAuth client ID: '' @ NumError_Error (Quote l)
                        (ValueString (OAuthClientResourceModel.ID (snd (ReadRequest.State_Get req)))) e)
                   \<in> set (Diagnostics resp'))"
    by (simp add: OAuthClientResource_Read_def Let_def AddError_mem HasError_AddError)
next
  assume "ParseInt (ValueString (OAuthClientResourceModel.ID (snd (DeleteRequest.State_Get dreq)))) = Inl e"
  then show "\<exists>resp'. OAuthClientResource_Delete l r dreq resp0 = Return (resp', [])
            \<and> HasError (Diagnostics resp') \<and> State resp' = State resp0
            \<and> (HasError (Append (Diagnostics resp0) (fst (DeleteRequest.State_Get dreq)))
                \<or> ErrorDiagnostic ''Error Parsing OAuth Client ID''
                     (''Could not parse OAuth client ID: '' @ NumError_Error (Quote l)
                        (ValueString (OAuthClientResourceModel.ID (snd (DeleteRequest.State_Get dreq)))) e)
                   \<in> set (Diagnostics resp'))"
    by (simp add: OAuthClientResource_Delete_def Let_def AddError_mem HasError_AddError)
next
  assume "ParseInt (ValueString (OAuthTokenResourceModel.ID (snd (ReadRequest.State_Get treq)))) = Inl e"
  then show "\<exists>resp'. OAuthTokenResource_Read l tr treq tresp0 = Return (resp', [])
            \<and> HasError (Diagnostics resp') \<and> State resp' = State tresp0
            \<and> (HasError (Append (Diagnostics tresp0) (fst (ReadRequest.State_Get treq)))
                \<or> ErrorDiagnostic ''Error Parsing OAuth Token ID''
                     (''Could not parse OAuth token ID: '' @ NumError_Error (Quote l)
                        (ValueString (OAuthTokenResourceModel.ID (snd (ReadRequest.State_Get treq)))) e)
                   \<in> set (Diagnostics resp'))"
    by (simp add: OAuthTokenResource_Read_def Let_def AddError_mem HasError_AddError)
next
  assume "ParseInt (ValueString (OAuthTokenResourceModel.ID (snd (DeleteRequest.State_Get tdreq)))) = Inl e"
  then show "\<exists>resp'. OAuthTokenResource_Delete l tr tdreq tresp0 = Return (resp', [])
            \<and> HasError (Diagnostics resp') \<and> State resp' = State tresp0
            \<and> (HasError (Append (Diagnostics tresp0) (fst (DeleteRequest.State_Get tdreq)))
                \<or> ErrorDiagnostic ''Error Parsing OAuth Token ID''
                     (''Could not parse OAuth token ID: '' @ NumError_Error (Quote l)
                        (ValueString (OAuthTokenResourceModel.ID (snd (DeleteRequest.State_Get tdreq)))) e)
                   \<in> set (Diagnostics resp'))"
    by (simp add: OAuthTokenResource_Delete_def Let_def AddError_mem HasError_AddError)
next
  assume "ParseInt (ValueString (OAuthTokenResourceModel.ClientID (snd (CreateRequest.Plan_Get tcreq)))) = Inl e"
  then show "\<exists>resp'. OAuthTokenResource_Create l tr tcreq tresp0 = Return (resp', [])
            \<and> HasError (Diagnostics resp') \<and> State resp' = State tresp0
            \<and> (HasError (Append (Diagnostics tresp0) (fst (CreateRequest.Plan_Get tcreq)))
                \<or> ErrorDiagnostic ''Error Parsing Client ID''
                     (''Could not parse client ID: '' @ NumError_Error (Quote l)
                        (ValueString (OAuthTokenResourceModel.ClientID (snd (CreateRequest.Plan_Get tcreq)))) e)
                   \<in> set (Diagnostics resp'))"
    by (simp add: OAuthTokenResource_Create_def Let_def AddError_mem HasError_AddError)
qed

theorem unparsable_id_stops_before_any_request_witness:
  "(\<exists>resp'. OAuthClientResource_Read (fixed_server 200 [] JNull) client_resource
        \<lparr>ReadRequest.State_Get = ([], client_model ''abc'')\<rparr> (tracked (client_model ''abc''))
        = Return (resp', [])
      \<and> HasError (Diagnostics resp') \<and> State resp' = Some (client_model ''abc''))
   \<and> (\<exists>resp'. OAuthClientResource_Delete (fixed_server 200 [] JNull) client_resource
        \<lparr>DeleteRequest.State_Get = ([], client_model ''abc'')\<rparr> (tracked (client_model ''abc''))
        = Return (resp', [])
      \<and> HasError (Diagnostics resp') \<and> State resp' = Some (client_model ''abc''))
   \<and> (\<exists>resp'. OAuthTokenResource_Read (fixed_server 200 [] JNull) token_resource
        \<lparr>ReadRequest.State_Get = ([], token_model ''abc'' ''7'')\<rparr>
        (tracked (token_model ''abc'' ''7'')) = Return (resp', [])
      \<and> HasError (Diagnostics resp') \<and> State resp' = Some (token_model ''abc'' ''7''))
   \<and> (\<exists>resp'. OAuthTokenResource_Delete (fixed_server 200 [] JNull) token_resource
        \<lparr>DeleteRequest.State_Get = ([], token_model ''abc'' ''7'')\<rparr>
        (tracked (token_model ''abc'' ''7'')) = Return (resp', [])
      \<and> HasError (Diagnostics resp') \<and> State resp' = Some (token_model ''abc'' ''7''))
   \<and> (\<exists>resp'. OAuthTokenResource_Create (fixed_server 200 [] JNull) token_resource
        \<lparr>CreateRequest.Plan_Get = ([], token_model [] ''abc'')\<rparr>
        (tracked (token_model ''abc'' ''7'')) = Return (resp', [])
      \<and> HasError (Diagnostics resp') \<and> State resp' = Some (token_model ''abc'' ''7''))"
proof -
  let ?S = "fixed_server 200 [] JNull"
  let ?c = "client_model ''abc''" and ?t = "token_model ''abc'' ''7''"
  let ?req = "\<lparr>ReadRequest.State_Get = ([], ?c)\<rparr>"
  let ?dreq = "\<lparr>DeleteRequest.State_Get = ([], ?c)\<rparr>"
  let ?treq = "\<lparr>ReadRequest.State_Get = ([], ?t)\<rparr>"
  let ?tdreq = "\<lparr>DeleteRequest.State_Get = ([], ?t)\<rparr>"
  let ?tcreq = "\<lparr>CreateRequest.Plan_Get = ([], token_model [] ''abc'')\<rparr>"
  note claim = unparsable_id_stops_before_any_request [where e = ErrSyntax and l = ?S
      and r = client_resource and tr = token_resource
      and ?resp0.0 = "tracked ?c" and ?tresp0.0 = "tracked ?t"
      and req = ?req and dreq = ?dreq and treq = ?treq and tdreq = ?tdreq and tcreq = ?tcreq]
  have p1: "ParseInt (ValueString (OAuthClientResourceModel.ID (snd (ReadRequest.State_Get ?req))))
      = Inl ErrSyntax"
    by (simp add: client_model_def parse_defs)
  have p2: "ParseInt (ValueString (OAuthClientResourceModel.ID (snd (DeleteRequest.State_Get ?dreq))))
      = Inl ErrSyntax"
    by (simp add: client_model_def parse_defs)
  have p3: "ParseInt (ValueString (OAuthTokenResourceModel.ID (snd (ReadRequest.State_Get ?treq))))
      = Inl ErrSyntax"
    by (simp add: token_model_def parse_defs)
  have p4: "ParseInt (ValueString (OAuthTokenResourceModel.ID (snd (DeleteRequest.State_Get ?tdreq))))
      = Inl ErrSyntax"
    by (simp add: token_model_def parse_defs)
  have p5: "ParseInt (ValueString (OAuthTokenResourceModel.ClientID
      (snd (CreateRequest.Plan_Get ?tcreq)))) = Inl ErrSyntax"
    by (simp add: token_model_def parse_defs)
  have s1: "State (tracked ?c) = Some ?c" and s2: "State (tracked ?t) = Some ?t"
    by (simp_all add: tracked_def)
  from claim p1 p2 p3 p4 p5 show ?thesis
    unfolding s1 s2 by blast
qed

text \<open>
  Whatever a read of the token resource stores, it has the full token and the id of the
  prior state.
\<close>

lemma OAuthTokenResource_Read_frame:
  assumes "OAuthTokenResource_Read l r \<lparr>ReadRequest.State_Get = (ds, state)\<rparr> resp0
      = Return (resp', sent)"
    and "State resp0 = Some state" and "State resp' = Some s'"
  shows "OAuthTokenResourceModel.FullToken s' = OAuthTokenResourceModel.FullToken state
    \<and> OAuthTokenResourceModel.ID s' = OAuthTokenResourceModel.ID state"
  using assms
  by (auto simp: OAuthTokenResource_Read_def Let_def
      split: if_splits sum.splits exec.splits prod.splits option.splits)

lemma refresh_frame:
  assumes "refresh l r s = Some s'"
  shows "OAuthTokenResourceModel.FullToken s' = OAuthTokenResourceModel.FullToken s
    \<and> OAuthTokenResourceModel.ID s' = OAuthTokenResourceModel.ID s"
proof -
  let ?resp0 = "\<lparr>Diagnostics = [], State = Some s\<rparr>"
  from assms obtain resp' sent where
    "OAuthTokenResource_Read l r \<lparr>ReadRequest.State_Get = ([], s)\<rparr> ?resp0 = Return (resp', sent)"
    and "State resp' = Some s'"
    by (auto simp: refresh_def split: exec.splits)
  from OAuthTokenResource_Read_frame [OF this(1) _ this(2)] show ?thesis
    by simp
qed

lemma refreshes_frame:
  assumes "refreshes ls r s = Some s'"
  shows "OAuthTokenResourceModel.FullToken s' = OAuthTokenResourceModel.FullToken s
    \<and> OAuthTokenResourceModel.ID s' = OAuthTokenResourceModel.ID s"
  using assms
proof (induction ls arbitrary: s)
  case Nil
  then show ?case by simp
next
  case (Cons l ls)
  then obtain s1 where one: "refresh l r s = Some s1" and rest: "refreshes ls r s1 = Some s'"
    by (auto split: option.splits)
  from refresh_frame [OF one] Cons.IH [OF rest] show ?case
    by simp
qed

text \<open>
  C7. When the read of the token resource has sent its request, the response has status
  200 and its body decodes, the state it stores is the prior state with the client id,
  the scopes and the expiry replaced by those of the decoded record: the full token and
  the id are the ones the prior state held, whatever the record holds. So after any
  number of refreshes a token that is still tracked has the full token and the id it
  started with.
\<close>

theorem token_read_keeps_full_token:
  "(OAuthTokenResource_Read l r \<lparr>ReadRequest.State_Get = (ds, state)\<rparr> resp0
        = Return (resp', [rq])
      \<and> Do l rq = Inr hr \<and> StatusCode hr = 200
      \<and> Decode_oauthTokenWrapper l (RespBody hr) = Inr w
    \<longrightarrow> State resp' = Some (state
          \<lparr>OAuthTokenResourceModel.ClientID :=
             StringValue (FormatInt (OAuthToken.ClientID (Token w))),
           OAuthTokenResourceModel.Scopes :=
             Some (map StringValue (elems (OAuthToken.Scopes (Token w)))),
           OAuthTokenResourceModel.ExpiresAt :=
             StringValue (OAuthToken.ExpiresAt (Token w))\<rparr>)
       \<and> map_option OAuthTokenResourceModel.FullToken (State resp')
           = Some (OAuthTokenResourceModel.FullToken state)
       \<and> map_option OAuthTokenResourceModel.ID (State resp')
           = Some (OAuthTokenResourceModel.ID state))
   \<and> (refreshes ls r state = Some s'
    \<longrightarrow> OAuthTokenResourceModel.FullToken s' = OAuthTokenResourceModel.FullToken state
       \<and> OAuthTokenResourceModel.ID s' = OAuthTokenResourceModel.ID state)"
proof (intro conjI impI)
  let ?req = "\<lparr>ReadRequest.State_Get = (ds, state)\<rparr>"
  let ?stored = "state
          \<lparr>OAuthTokenResourceModel.ClientID :=
             StringValue (FormatInt (OAuthToken.ClientID (Token w))),
           OAuthTokenResourceModel.Scopes :=
             Some (map StringValue (elems (OAuthToken.Scopes (Token w)))),
           OAuthTokenResourceModel.ExpiresAt :=
             StringValue (OAuthToken.ExpiresAt (Token w))\<rparr>"
  assume h: "OAuthTokenResource_Read l r ?req resp0 = Return (resp', [rq])
     \<and> Do l rq = Inr hr \<and> StatusCode hr = 200
     \<and> Decode_oauthTokenWrapper l (RespBody hr) = Inr w"
  then have run: "OAuthTokenResource_Read l r ?req resp0 = Return (resp', [rq])"
    by simp
  from OAuthTokenResource_Read_sent [OF run] obtain i out where
    ok: "\<not> HasError (Append (Diagnostics resp0) ds)"
    and p: "ParseInt (ValueString (OAuthTokenResourceModel.ID state)) = Inr i"
    and c: "ReadOAuthToken l (OAuthTokenResource.client r) i = Return (out, [rq])"
    by auto
  from h ReadOAuthToken_sent [OF c, of hr] have "out = (Some (Token w), None)"
    by simp
  with ok p c run
  have stored: "resp' = resp0\<lparr>Diagnostics := Append (Diagnostics resp0) ds,
      State := Some ?stored\<rparr>"
    by (simp add: OAuthTokenResource_Read_def Let_def)
  from stored show "State resp' = Some ?stored"
    by simp
  from stored show "map_option OAuthTokenResourceModel.FullToken (State resp')
      = Some (OAuthTokenResourceModel.FullToken state)"
    by simp
  from stored show "map_option OAuthTokenResourceModel.ID (State resp')
      = Some (OAuthTokenResourceModel.ID state)"
    by simp
next
  assume "refreshes ls r state = Some s'"
  from refreshes_frame [OF this]
  show "OAuthTokenResourceModel.FullToken s' = OAuthTokenResourceModel.FullToken state"
    and "OAuthTokenResourceModel.ID s' = OAuthTokenResourceModel.ID state"
    by simp_all
qed

theorem token_read_keeps_full_token_witness:
  "(\<exists>rq. OAuthTokenResource_Read (fixed_server 200 [] token_json) token_resource
       \<lparr>ReadRequest.State_Get = ([], token_model ''8'' ''7'')\<rparr> (tracked (token_model ''8'' ''7''))
     = Return (tracked
         \<lparr>OAuthTokenResourceModel.ID = StringValue ''8'',
          OAuthTokenResourceModel.ClientID = StringValue ''42'',
          OAuthTokenResourceModel.Scopes = Some [StringValue ''read'', StringValue ''write''],
          OAuthTokenResourceModel.FullToken = StringValue ''secret'',
          OAuthTokenResourceModel.ExpiresAt = StringValue ''2025-01-01T00:00:00Z''\<rparr>, [rq]))
   \<and> (\<exists>s'. refreshes [fixed_server 200 [] token_json, fixed_server 500 ''boom'' JNull,
                       fixed_server 200 [] token_json] token_resource (token_model ''8'' ''7'')
          = Some s'
        \<and> OAuthTokenResourceModel.FullToken s' = StringValue ''secret''
        \<and> OAuthTokenResourceModel.ID s' = StringValue ''8'')"
proof -
  let ?S = "fixed_server 200 [] token_json"
  let ?E = "fixed_server 500 ''boom'' JNull"
  let ?m = "token_model ''8'' ''7''"
  let ?hr = "\<lparr>StatusCode = 200, RespBody = []\<rparr>"
  let ?stored = "\<lparr>OAuthTokenResourceModel.ID = StringValue ''8'',
          OAuthTokenResourceModel.ClientID = StringValue ''42'',
          OAuthTokenResourceModel.Scopes = Some [StringValue ''read'', StringValue ''write''],
          OAuthTokenResourceModel.FullToken = StringValue ''secret'',
          OAuthTokenResourceModel.ExpiresAt = StringValue ''2025-01-01T00:00:00Z''\<rparr>"
  have "\<exists>resp' rq. OAuthTokenResource_Read ?S token_resource
      \<lparr>ReadRequest.State_Get = ([], ?m)\<rparr> (tracked ?m) = Return (resp', [rq])
      \<and> Diagnostics resp' = []"
    by (simp add: OAuthTokenResource_Read_def ReadOAuthToken_def run_defs decode_defs
        parse_defs example_defs HasError_def)
  then obtain resp' rq where
    run: "OAuthTokenResource_Read ?S token_resource
      \<lparr>ReadRequest.State_Get = ([], ?m)\<rparr> (tracked ?m) = Return (resp', [rq])"
    and quiet: "Diagnostics resp' = []"
    by blast
  have answer: "Do ?S rq = Inr ?hr"
    by (simp add: fixed_server_def)
  have "\<exists>w. Decode_oauthTokenWrapper ?S (RespBody ?hr) = Inr w
      \<and> OAuthToken.ClientID (Token w) = 42
      \<and> OAuthToken.Scopes (Token w) = Some [''read'', ''write'']
      \<and> OAuthToken.ExpiresAt (Token w) = ''2025-01-01T00:00:00Z''"
    by (simp add: fixed_server_def decode_defs parse_defs token_json_def)
  then obtain w where
    dec: "Decode_oauthTokenWrapper ?S (RespBody ?hr) = Inr w"
    and v: "OAuthToken.ClientID (Token w) = 42"
      "OAuthToken.Scopes (Token w) = Some [''read'', ''write'']"
      "OAuthToken.ExpiresAt (Token w) = ''2025-01-01T00:00:00Z''"
    by blast
  have "StatusCode ?hr = 200"
    by simp
  note token_read_keeps_full_token [where l = ?S and r = token_resource and ds = "[]"
      and state = ?m and ?resp0.0 = "tracked ?m" and resp' = resp' and rq = rq and hr = ?hr
      and w = w, THEN conjunct1, THEN mp,
      OF conjI [OF run conjI [OF answer conjI [OF this dec]]], THEN conjunct1]
  then have "State resp' = Some ?stored"
    by (simp add: v token_model_def format_defs)
  with quiet have "resp' = tracked ?stored"
    by (simp add: tracked_def)
  with run have a: "\<exists>rq. OAuthTokenResource_Read ?S token_resource
      \<lparr>ReadRequest.State_Get = ([], ?m)\<rparr> (tracked ?m) = Return (tracked ?stored, [rq])"
    by blast
  have "\<exists>s'. refreshes [?S, ?E, ?S] token_resource ?m = Some s'"
    by (simp add: refresh_def OAuthTokenResource_Read_def ReadOAuthToken_def run_defs
        decode_defs parse_defs example_defs HasError_def AddError_def ErrorDiagnostic_def)
  then obtain s' where r: "refreshes [?S, ?E, ?S] token_resource ?m = Some s'"
    by blast
  from token_read_keeps_full_token [where ls = "[?S, ?E, ?S]" and r = token_resource
      and state = ?m and s' = s', THEN conjunct2, THEN mp, OF r]
  have "OAuthTokenResourceModel.FullToken s' = StringValue ''secret''
      \<and> OAuthTokenResourceModel.ID s' = StringValue ''8''"
    by (simp add: token_model_def)
  with r have b: "\<exists>s'. refreshes [?S, ?E, ?S] token_resource ?m = Some s'
        \<and> OAuthTokenResourceModel.FullToken s' = StringValue ''secret''
        \<and> OAuthTokenResourceModel.ID s' = StringValue ''8''"
    by blast
  from a b show ?thesis by blast
qed

text \<open>Decoding a response that omits a field leaves the field of the record as it was.\<close>

lemma match_field_mem: "match_field l names k = Some tag \<Longrightarrow> tag \<in> set names"
  by (auto simp: match_field_def find_Some_iff split: if_splits)

lemma decode_OAuthClient_field_Description:
  assumes "decode_OAuthClient_field l tag v c = Inr c'" and "tag \<in> set OAuthClient_tags"
    and "tag \<noteq> ''description''"
  shows "OAuthClient.Description c' = OAuthClient.Description c"
proof -
  have other: "OAuthClient.Description c' = OAuthClient.Description c"
    if "decode_OAuthClient_field l tg v c = Inr c'"
      and "tg = ''id'' \<or> tg = ''name'' \<or> tg = ''identifier'' \<or> tg = ''kind''" for tg
    using that by (auto simp: decode_OAuthClient_field_def split: sum.splits)
  from assms(2,3) have "tag = ''id'' \<or> tag = ''name'' \<or> tag = ''identifier'' \<or> tag = ''kind''"
    by (simp add: OAuthClient_tags_def)
  with assms(1) show ?thesis by (rule other)
qed

lemma decode_OAuthClient_members_Description:
  assumes "omits l OAuthClient_tags ''description'' ms"
    and "decode_OAuthClient_members l ms c = Inr c'"
  shows "OAuthClient.Description c' = OAuthClient.Description c"
  using assms
proof (induction ms arbitrary: c)
  case Nil
  then show ?case by simp
next
  case (Cons kv ms)
  obtain k v where kv: "kv = (k, v)" by (cases kv)
  from Cons.prems(1) kv have here: "match_field l OAuthClient_tags k \<noteq> Some ''description''"
    and rest: "omits l OAuthClient_tags ''description'' ms"
    by (simp_all add: omits_def)
  show ?case
  proof (cases "match_field l OAuthClient_tags k")
    case None
    with Cons.prems(2) kv Cons.IH [OF rest] show ?thesis by simp
  next
    case (Some tag)
    with Cons.prems(2) kv obtain c1 where
      f: "decode_OAuthClient_field l tag v c = Inr c1"
      and m: "decode_OAuthClient_members l ms c1 = Inr c'"
      by (auto split: sum.splits)
    from Some here have "tag \<noteq> ''description''" by simp
    with f match_field_mem [OF Some]
    have "OAuthClient.Description c1 = OAuthClient.Description c"
      by (rule decode_OAuthClient_field_Description)
    with Cons.IH [OF rest m] show ?thesis by simp
  qed
qed

lemma decode_OAuthClient_Description:
  assumes "inner_omits l OAuthClient_tags ''description'' v"
    and "decode_OAuthClient l v c = Inr c'"
  shows "OAuthClient.Description c' = OAuthClient.Description c"
  using assms decode_OAuthClient_members_Description
  by (cases v) auto

lemma decode_oauthClientWrapper_members_Description:
  assumes "list_all (\<lambda>kv. match_field l [''client''] (fst kv) = None
              \<or> inner_omits l OAuthClient_tags ''description'' (snd kv)) outer"
    and "decode_oauthClientWrapper_members l outer w = Inr w'"
  shows "OAuthClient.Description (Client w') = OAuthClient.Description (Client w)"
  using assms
proof (induction outer arbitrary: w)
  case Nil
  then show ?case by simp
next
  case (Cons kv outer)
  obtain k v where kv: "kv = (k, v)" by (cases kv)
  from Cons.prems(1) kv
  have here: "match_field l [''client''] k = None
      \<or> inner_omits l OAuthClient_tags ''description'' v"
    and rest: "list_all (\<lambda>kv. match_field l [''client''] (fst kv) = None
              \<or> inner_omits l OAuthClient_tags ''description'' (snd kv)) outer"
    by simp_all
  show ?case
  proof (cases "match_field l [''client''] k")
    case None
    with Cons.prems(2) kv Cons.IH [OF rest] show ?thesis by simp
  next
    case (Some tag)
    with Cons.prems(2) kv obtain c1 where
      f: "decode_OAuthClient l v (Client w) = Inr c1"
      and m: "decode_oauthClientWrapper_members l outer (w\<lparr>Client := c1\<rparr>) = Inr w'"
      by (auto split: sum.splits)
    from Some here have "inner_omits l OAuthClient_tags ''description'' v" by simp
    from decode_OAuthClient_Description [OF this f] Cons.IH [OF rest m]
    show ?thesis by simp
  qed
qed

lemma Decode_oauthClientWrapper_Description:
  assumes "json_read l body = Inr v"
    and "envelope_omits l ''client'' OAuthClient_tags ''description'' v"
    and "Decode_oauthClientWrapper l body = Inr w"
  shows "OAuthClient.Description (Client w) = []"
proof (cases v)
  case (JObject outer)
  with assms decode_oauthClientWrapper_members_Description
    [of l outer "\<lparr>Client = zero_OAuthClient\<rparr>" w]
  show ?thesis
    by (simp add: Decode_oauthClientWrapper_def zero_OAuthClient_def)
qed (use assms in \<open>auto simp: Decode_oauthClientWrapper_def zero_OAuthClient_def\<close>)

lemma decode_OAuthToken_field_ExpiresAt:
  assumes "decode_OAuthToken_field l tag v t = Inr t'" and "tag \<in> set OAuthToken_tags"
    and "tag \<noteq> ''expires_at''"
  shows "OAuthToken.ExpiresAt t' = OAuthToken.ExpiresAt t"
proof -
  have a: "OAuthToken.ExpiresAt t' = OAuthToken.ExpiresAt t"
    if "decode_OAuthToken_field l ''id'' v t = Inr t'"
    using that by (auto simp: decode_OAuthToken_field_def split: sum.splits)
  have b: "OAuthToken.ExpiresAt t' = OAuthToken.ExpiresAt t"
    if "decode_OAuthToken_field l ''client_id'' v t = Inr t'"
    using that by (auto simp: decode_OAuthToken_field_def split: sum.splits)
  have c: "OAuthToken.ExpiresAt t' = OAuthToken.ExpiresAt t"
    if "decode_OAuthToken_field l ''user_id'' v t = Inr t'"
    using that by (auto simp: decode_OAuthToken_field_def split: sum.splits)
  have d: "OAuthToken.ExpiresAt t' = OAuthToken.ExpiresAt t"
    if "decode_OAuthToken_field l ''scopes'' v t = Inr t'"
    using that by (auto simp: decode_OAuthToken_field_def split: sum.splits)
  have e: "OAuthToken.ExpiresAt t' = OAuthToken.ExpiresAt t"
    if "decode_OAuthToken_field l ''full_token'' v t = Inr t'"
    using that by (auto simp: decode_OAuthToken_field_def split: sum.splits)
  from assms(2,3) have "tag = ''id'' \<or> tag = ''client_id'' \<or> tag = ''user_id''
      \<or> tag = ''scopes'' \<or> tag = ''full_token''"
    by (simp add: OAuthToken_tags_def)
  with assms(1) a b c d e show ?thesis by blast
qed

lemma decode_OAuthToken_members_ExpiresAt:
  assumes "omits l OAuthToken_tags ''expires_at'' ms"
    and "decode_OAuthToken_members l ms t = Inr t'"
  shows "OAuthToken.ExpiresAt t' = OAuthToken.ExpiresAt t"
  using assms
proof (induction ms arbitrary: t)
  case Nil
  then show ?case by simp
next
  case (Cons kv ms)
  obtain k v where kv: "kv = (k, v)" by (cases kv)
  from Cons.prems(1) kv have here: "match_field l OAuthToken_tags k \<noteq> Some ''expires_at''"
    and rest: "omits l OAuthToken_tags ''expires_at'' ms"
    by (simp_all add: omits_def)
  show ?case
  proof (cases "match_field l OAuthToken_tags k")
    case None
    with Cons.prems(2) kv Cons.IH [OF rest] show ?thesis by simp
  next
    case (Some tag)
    with Cons.prems(2) kv obtain t1 where
      f: "decode_OAuthToken_field l tag v t = Inr t1"
      and m: "decode_OAuthToken_members l ms t1 = Inr t'"
      by (auto split: sum.splits)
    from Some here have "tag \<noteq> ''expires_at''" by simp
    with f match_field_mem [OF Some]
    have "OAuthToken.ExpiresAt t1 = OAuthToken.ExpiresAt t"
      by (rule decode_OAuthToken_field_ExpiresAt)
    with Cons.IH [OF rest m] show ?thesis by simp
  qed
qed

lemma decode_OAuthToken_ExpiresAt:
  assumes "inner_omits l OAuthToken_tags ''expires_at'' v"
    and "decode_OAuthToken l v t = Inr t'"
  shows "OAuthToken.ExpiresAt t' = OAuthToken.ExpiresAt t"
  using assms decode_OAuthToken_members_ExpiresAt
  by (cases v) auto

lemma decode_oauthTokenWrapper_members_ExpiresAt:
  assumes "list_all (\<lambda>kv. match_field l [''token''] (fst kv) = None
              \<or> inner_omits l OAuthToken_tags ''expires_at'' (snd kv)) outer"
    and "decode_oauthTokenWrapper_members l outer w = Inr w'"
  shows "OAuthToken.ExpiresAt (Token w') = OAuthToken.ExpiresAt (Token w)"
  using assms
proof (induction outer arbitrary: w)
  case Nil
  then show ?case by simp
next
  case (Cons kv outer)
  obtain k v where kv: "kv = (k, v)" by (cases kv)
  from Cons.prems(1) kv
  have here: "match_field l [''token''] k = None
      \<or> inner_omits l OAuthToken_tags ''expires_at'' v"
    and rest: "list_all (\<lambda>kv. match_field l [''token''] (fst kv) = None
              \<or> inner_omits l OAuthToken_tags ''expires_at'' (snd kv)) outer"
    by simp_all
  show ?case
  proof (cases "match_field l [''token''] k")
    case None
    with Cons.prems(2) kv Cons.IH [OF rest] show ?thesis by simp
  next
    case (Some tag)
    with Cons.prems(2) kv obtain t1 where
      f: "decode_OAuthToken l v (Token w) = Inr t1"
      and m: "decode_oauthTokenWrapper_members l outer (w\<lparr>Token := t1\<rparr>) = Inr w'"
      by (auto split: sum.splits)
    from Some here have "inner_omits l OAuthToken_tags ''expires_at'' v" by simp
    from decode_OAuthToken_ExpiresAt [OF this f] Cons.IH [OF rest m]
    show ?thesis by simp
  qed
qed

lemma Decode_oauthTokenWrapper_ExpiresAt:
  assumes "json_read l body = Inr v"
    and "envelope_omits l ''token'' OAuthToken_tags ''expires_at'' v"
    and "Decode_oauthTokenWrapper l body = Inr w"
  shows "OAuthToken.ExpiresAt (Token w) = []"
proof (cases v)
  case (JObject outer)
  with assms decode_oauthTokenWrapper_members_ExpiresAt
    [of l outer "\<lparr>Token = zero_OAuthToken\<rparr>" w]
  show ?thesis
    by (simp add: Decode_oauthTokenWrapper_def zero_OAuthToken_def)
qed (use assms in \<open>auto simp: Decode_oauthTokenWrapper_def zero_OAuthToken_def\<close>)

text \<open>A create that sent its request and reports no error stored the decoded record.\<close>

lemma OAuthClientResource_Create_stored:
  assumes "OAuthClientResource_Create l r \<lparr>CreateRequest.Plan_Get = (ds, plan)\<rparr> resp0
      = Return (resp', [rq])"
    and "\<not> HasError (Diagnostics resp')" and "Do l rq = Inr hr"
  shows "\<exists>w. Decode_oauthClientWrapper l (RespBody hr) = Inr w
    \<and> State resp' = Some (plan
         \<lparr>OAuthClientResourceModel.ID := StringValue (FormatInt (OAuthClient.ID (Client w))),
          OAuthClientResourceModel.Description :=
            StringValue (OAuthClient.Description (Client w))\<rparr>)"
proof -
  let ?call = "CreateOAuthClient l (OAuthClientResource.client r)
      (ValueString (OAuthClientResourceModel.Name plan))
      (ValueString (OAuthClientResourceModel.Identifier plan))
      (ValueString (OAuthClientResourceModel.Kind plan))
      (ValueString (OAuthClientResourceModel.Description plan))"
  from assms(1,2) obtain cl where
    c: "?call = Return ((Some cl, None), [rq])"
    and s: "State resp' = Some (plan
         \<lparr>OAuthClientResourceModel.ID := StringValue (FormatInt (OAuthClient.ID cl)),
          OAuthClientResourceModel.Description := StringValue (OAuthClient.Description cl)\<rparr>)"
    by (auto simp: OAuthClientResource_Create_def Let_def HasError_AddError
        split: if_splits exec.splits prod.splits option.splits)
  from CreateOAuthClient_sent [OF c assms(3)]
  obtain w where "Decode_oauthClientWrapper l (RespBody hr) = Inr w" and "cl = Client w"
    by (auto split: if_splits sum.splits)
  with s show ?thesis by simp
qed

lemma OAuthTokenResource_Create_stored:
  assumes "OAuthTokenResource_Create l r \<lparr>CreateRequest.Plan_Get = (ds, plan)\<rparr> resp0
      = Return (resp', [rq])"
    and "\<not> HasError (Diagnostics resp')" and "Do l rq = Inr hr"
  shows "\<exists>w. Decode_oauthTokenWrapper l (RespBody hr) = Inr w
    \<and> State resp' = Some (plan
         \<lparr>OAuthTokenResourceModel.ID := StringValue (FormatInt (OAuthToken.ID (Token w))),
          OAuthTokenResourceModel.FullToken := StringValue (OAuthToken.FullToken (Token w)),
          OAuthTokenResourceModel.ExpiresAt := StringValue (OAuthToken.ExpiresAt (Token w))\<rparr>)"
proof -
  from assms(1,2) obtain ci tk where
    c: "CreateOAuthToken l (OAuthTokenResource.client r) ci
          (Some (map ValueString (elems (OAuthTokenResourceModel.Scopes plan))))
          (ValueString (OAuthTokenResourceModel.ExpiresAt plan))
        = Return ((Some tk, None), [rq])"
    and s: "State resp' = Some (plan
         \<lparr>OAuthTokenResourceModel.ID := StringValue (FormatInt (OAuthToken.ID tk)),
          OAuthTokenResourceModel.FullToken := StringValue (OAuthToken.FullToken tk),
          OAuthTokenResourceModel.ExpiresAt := StringValue (OAuthToken.ExpiresAt tk)\<rparr>)"
    by (auto simp: OAuthTokenResource_Create_def Let_def HasError_AddError
        split: if_splits sum.splits exec.splits prod.splits option.splits)
  from CreateOAuthToken_sent [OF c assms(3)]
  obtain w where "Decode_oauthTokenWrapper l (RespBody hr) = Inr w" and "tk = Token w"
    by (auto split: if_splits sum.splits)
  with s show ?thesis by simp
qed

text \<open>
  C8. When a create has sent its request and reports no error, and the JSON value of the
  response omits the description (for a client) or the expiry (for a token), the state
  it stores holds the empty string for that attribute, whatever the plan held.
\<close>

theorem create_clears_omitted_field:
  "(OAuthClientResource_Create l r \<lparr>CreateRequest.Plan_Get = (ds, plan)\<rparr> resp0
        = Return (resp', [rq])
      \<and> \<not> HasError (Diagnostics resp') \<and> Do l rq = Inr hr
      \<and> json_read l (RespBody hr) = Inr v
      \<and> envelope_omits l ''client'' OAuthClient_tags ''description'' v
      \<longrightarrow> map_option OAuthClientResourceModel.Description (State resp')
          = Some (StringValue []))
   \<and> (OAuthTokenResource_Create l tr \<lparr>CreateRequest.Plan_Get = (ds, tplan)\<rparr> tresp0
        = Return (tresp', [rq])
      \<and> \<not> HasError (Diagnostics tresp') \<and> Do l rq = Inr hr
      \<and> json_read l (RespBody hr) = Inr v
      \<and> envelope_omits l ''token'' OAuthToken_tags ''expires_at'' v
      \<longrightarrow> map_option OAuthTokenResourceModel.ExpiresAt (State tresp')
          = Some (StringValue []))"
proof (intro conjI impI)
  assume h: "OAuthClientResource_Create l r \<lparr>CreateRequest.Plan_Get = (ds, plan)\<rparr> resp0
        = Return (resp', [rq])
      \<and> \<not> HasError (Diagnostics resp') \<and> Do l rq = Inr hr
      \<and> json_read l (RespBody hr) = Inr v
      \<and> envelope_omits l ''client'' OAuthClient_tags ''description'' v"
  then obtain w where d: "Decode_oauthClientWrapper l (RespBody hr) = Inr w"
    and s: "State resp' = Some (plan
         \<lparr>OAuthClientResourceModel.ID := StringValue (FormatInt (OAuthClient.ID (Client w))),
          OAuthClientResourceModel.Description :=
            StringValue (OAuthClient.Description (Client w))\<rparr>)"
    using OAuthClientResource_Create_stored [of l r ds plan resp0 resp' rq hr] by blast
  from h d have "OAuthClient.Description (Client w) = []"
    using Decode_oauthClientWrapper_Description [of l "RespBody hr" v w] by blast
  with s show "map_option OAuthClientResourceModel.Description (State resp')
      = Some (StringValue [])"
    by simp
next
  assume h: "OAuthTokenResource_Create l tr \<lparr>CreateRequest.Plan_Get = (ds, tplan)\<rparr> tresp0
        = Return (tresp', [rq])
      \<and> \<not> HasError (Diagnostics tresp') \<and> Do l rq = Inr hr
      \<and> json_read l (RespBody hr) = Inr v
      \<and> envelope_omits l ''token'' OAuthToken_tags ''expires_at'' v"
  then obtain w where d: "Decode_oauthTokenWrapper l (RespBody hr) = Inr w"
    and s: "State tresp' = Some (tplan
         \<lparr>OAuthTokenResourceModel.ID := StringValue (FormatInt (OAuthToken.ID (Token w))),
          OAuthTokenResourceModel.FullToken := StringValue (OAuthToken.FullToken (Token w)),
          OAuthTokenResourceModel.ExpiresAt := StringValue (OAuthToken.ExpiresAt (Token w))\<rparr>)"
    using OAuthTokenResource_Create_stored [of l tr ds tplan tresp0 tresp' rq hr] by blast
  from h d have "OAuthToken.ExpiresAt (Token w) = []"
    using Decode_oauthTokenWrapper_ExpiresAt [of l "RespBody hr" v w] by blast
  with s show "map_option OAuthTokenResourceModel.ExpiresAt (State tresp')
      = Some (StringValue [])"
    by simp
qed

theorem create_clears_omitted_field_witness:
  "OAuthClientResourceModel.Description client_plan = StringValue ''mine''
   \<and> (\<exists>resp' rq. OAuthClientResource_Create (fixed_server 201 [] client_json_bare)
          client_resource \<lparr>CreateRequest.Plan_Get = ([], client_plan)\<rparr> untracked
        = Return (resp', [rq])
       \<and> map_option OAuthClientResourceModel.Description (State resp')
           = Some (StringValue []))
   \<and> OAuthTokenResourceModel.ExpiresAt (token_plan ''42'') = StringValue ''2024-12-31T23:59:59Z''
   \<and> (\<exists>resp' rq. OAuthTokenResource_Create (fixed_server 201 [] token_json_bare)
          token_resource \<lparr>CreateRequest.Plan_Get = ([], token_plan ''42'')\<rparr> untracked
        = Return (resp', [rq])
       \<and> map_option OAuthTokenResourceModel.ExpiresAt (State resp')
           = Some (StringValue []))"
proof -
  let ?S = "fixed_server 201 [] client_json_bare" and ?T = "fixed_server 201 [] token_json_bare"
  let ?hr = "\<lparr>StatusCode = 201, RespBody = []\<rparr>"
  have answer: "Do ?S rq = Inr ?hr" "Do ?T rq = Inr ?hr" for rq
    by (simp_all add: fixed_server_def)
  have body: "json_read ?S (RespBody ?hr) = Inr client_json_bare"
    "json_read ?T (RespBody ?hr) = Inr token_json_bare"
    by (simp_all add: fixed_server_def)
  have omitted: "envelope_omits ?S ''client'' OAuthClient_tags ''description'' client_json_bare"
    "envelope_omits ?T ''token'' OAuthToken_tags ''expires_at'' token_json_bare"
    by (simp_all add: client_json_bare_def token_json_bare_def omits_def match_field_def
        OAuthClient_tags_def OAuthToken_tags_def fixed_server_def)
  have "\<exists>resp' rq. OAuthClientResource_Create ?S client_resource
      \<lparr>CreateRequest.Plan_Get = ([], client_plan)\<rparr> untracked = Return (resp', [rq])
      \<and> \<not> HasError (Diagnostics resp')"
    by (simp add: OAuthClientResource_Create_def CreateOAuthClient_def run_defs decode_defs
        parse_defs example_defs HasError_def)
  then obtain c1 r1 where
    1: "OAuthClientResource_Create ?S client_resource
      \<lparr>CreateRequest.Plan_Get = ([], client_plan)\<rparr> untracked = Return (c1, [r1])"
    and q1: "\<not> HasError (Diagnostics c1)"
    by blast
  note create_clears_omitted_field [where l = ?S and r = client_resource and ds = "[]"
      and plan = client_plan and ?resp0.0 = untracked and resp' = c1 and rq = r1 and hr = ?hr
      and v = client_json_bare, THEN conjunct1, THEN mp,
      OF conjI [OF 1 conjI [OF q1 conjI [OF answer(1) conjI [OF body(1) omitted(1)]]]]]
  with 1 have a: "\<exists>resp' rq. OAuthClientResource_Create ?S client_resource
        \<lparr>CreateRequest.Plan_Get = ([], client_plan)\<rparr> untracked = Return (resp', [rq])
       \<and> map_option OAuthClientResourceModel.Description (State resp') = Some (StringValue [])"
    by blast
  have "\<exists>resp' rq. OAuthTokenResource_Create ?T token_resource
      \<lparr>CreateRequest.Plan_Get = ([], token_plan ''42'')\<rparr> untracked = Return (resp', [rq])
      \<and> \<not> HasError (Diagnostics resp')"
    by (simp add: OAuthTokenResource_Create_def CreateOAuthToken_def run_defs decode_defs
        parse_defs example_defs HasError_def)
  then obtain c2 r2 where
    2: "OAuthTokenResource_Create ?T token_resource
      \<lparr>CreateRequest.Plan_Get = ([], token_plan ''42'')\<rparr> untracked = Return (c2, [r2])"
    and q2: "\<not> HasError (Diagnostics c2)"
    by blast
  note create_clears_omitted_field [where l = ?T and tr = token_resource and ds = "[]"
      and tplan = "token_plan ''42''" and ?tresp0.0 = untracked and tresp' = c2 and rq = r2
      and hr = ?hr and v = token_json_bare, THEN conjunct2, THEN mp,
      OF conjI [OF 2 conjI [OF q2 conjI [OF answer(2) conjI [OF body(2) omitted(2)]]]]]
  with 2 have b: "\<exists>resp' rq. OAuthTokenResource_Create ?T token_resource
        \<lparr>CreateRequest.Plan_Get = ([], token_plan ''42'')\<rparr> untracked = Return (resp', [rq])
       \<and> map_option OAuthTokenResourceModel.ExpiresAt (State resp') = Some (StringValue [])"
    by blast
  have c: "OAuthClientResourceModel.Description client_plan = StringValue ''mine''"
    "OAuthTokenResourceModel.ExpiresAt (token_plan ''42'') = StringValue ''2024-12-31T23:59:59Z''"
    by (simp_all add: example_defs)
  from a b c show ?thesis by blast
qed

text \<open>
  C9, as the code has it. When the URL parses, \<^verbatim>\<open>CreateOAuthClient\<close> sends one request, a
  POST with the JSON content type, whose body is a single \<^verbatim>\<open>client\<close> object holding the
  id (always 0, the field being unset), the name, the identifier and the kind, followed
  by the description only when the description is not empty.
\<close>

theorem create_client_request_body:
  "url_error l (''https://'' @ subdomain c @ ''.zendesk.com/api/v2/oauth/clients.json'') = None
   \<longrightarrow> map (\<lambda>rq. (Method rq, ContentType rq, Body rq))
         (sent_of (CreateOAuthClient l (Some c) name identifier kind description))
       = [(''POST'', Some ''application/json'',
           Some (JObject [(''client'',
                   JObject ([(''id'', JNumber ''0''),
                             (''name'', JString name),
                             (''identifier'', JString identifier),
                             (''kind'', JString kind)]
                            @ (if description = [] then []
                               else [(''description'', JString description)])))]))]"
  by (simp add: CreateOAuthClient_def NewRequest_def SetBasicAuth_def Header_Set_ContentType_def
      Let_def Marshal_oauthClientWrapper_def Marshal_OAuthClient_def omitempty_def
      zero_OAuthClient_def format_defs split: sum.splits)

theorem create_client_request_body_witness:
  "map (\<lambda>rq. (Method rq, ContentType rq, Body rq))
     (sent_of (CreateOAuthClient (fixed_server 201 [] client_json) (Some acme)
        ''Basic Client'' ''basic_client'' ''public'' []))
   = [(''POST'', Some ''application/json'',
       Some (JObject [(''client'',
               JObject [(''id'', JNumber ''0''),
                        (''name'', JString ''Basic Client''),
                        (''identifier'', JString ''basic_client''),
                        (''kind'', JString ''public'')])]))]"
  using create_client_request_body [of "fixed_server 201 [] client_json" acme
      "''Basic Client''" "''basic_client''" "''public''" "[]"]
  by (simp add: fixed_server_def)

text \<open>
  C9 as the spec words it fails: the body that is sent is not the four fields alone,
  with a description or without one.
\<close>

theorem create_client_request_body_counterexample:
  "map Body (sent_of (CreateOAuthClient (fixed_server 201 [] client_json) (Some acme)
        ''Basic Client'' ''basic_client'' ''public'' ''mine''))
     \<noteq> [Some (spec_create_client_body ''Basic Client'' ''basic_client'' ''public'' ''mine'')]
   \<and> map Body (sent_of (CreateOAuthClient (fixed_server 201 [] client_json) (Some acme)
        ''Basic Client'' ''basic_client'' ''public'' []))
     \<noteq> [Some (spec_create_client_body ''Basic Client'' ''basic_client'' ''public'' [])]"
  by (simp add: CreateOAuthClient_def run_defs Marshal_oauthClientWrapper_def
      Marshal_OAuthClient_def omitempty_def zero_OAuthClient_def spec_create_client_body_def
      split: sum.splits)

text \<open>
  C10, as the code has it. Configuring either resource with nil provider data returns
  the resource and the response unchanged: no diagnostic, the client as it was. A
  create, read or delete panics exactly when the client is nil and the operation reaches
  its call of the API client, that is when reading the plan or state reported no error
  and the id (for the create of a token, the client id of the plan) parses.
\<close>

theorem nil_client_panics_at_the_call:
  "OAuthClientResource_Configure r \<lparr>ProviderData = None\<rparr> cresp = (r, cresp)
   \<and> OAuthTokenResource_Configure tr \<lparr>ProviderData = None\<rparr> cresp = (tr, cresp)
   \<and> (OAuthClientResource_Create l r \<lparr>CreateRequest.Plan_Get = (ds, state)\<rparr> resp0 = Panic)
       = (OAuthClientResource.client r = None \<and> \<not> HasError (Append (Diagnostics resp0) ds))
   \<and> (OAuthClientResource_Read l r \<lparr>ReadRequest.State_Get = (ds, state)\<rparr> resp0 = Panic)
       = (OAuthClientResource.client r = None \<and> \<not> HasError (Append (Diagnostics resp0) ds)
          \<and> \<not> isl (ParseInt (ValueString (OAuthClientResourceModel.ID state))))
   \<and> (OAuthClientResource_Delete l r \<lparr>DeleteRequest.State_Get = (ds, state)\<rparr> resp0 = Panic)
       = (OAuthClientResource.client r = None \<and> \<not> HasError (Append (Diagnostics resp0) ds)
          \<and> \<not> isl (ParseInt (ValueString (OAuthClientResourceModel.ID state))))
   \<and> (OAuthTokenResource_Create l tr \<lparr>CreateRequest.Plan_Get = (ds, tstate)\<rparr> tresp0 = Panic)
       = (OAuthTokenResource.client tr = None \<and> \<not> HasError (Append (Diagnostics tresp0) ds)
          \<and> \<not> isl (ParseInt (ValueString (OAuthTokenResourceModel.ClientID tstate))))
   \<and> (OAuthTokenResource_Read l tr \<lparr>ReadRequest.State_Get = (ds, tstate)\<rparr> tresp0 = Panic)
       = (OAuthTokenResource.client tr = None \<and> \<not> HasError (Append (Diagnostics tresp0) ds)
          \<and> \<not> isl (ParseInt (ValueString (OAuthTokenResourceModel.ID tstate))))
   \<and> (OAuthTokenResource_Delete l tr \<lparr>DeleteRequest.State_Get = (ds, tstate)\<rparr> tresp0 = Panic)
       = (OAuthTokenResource.client tr = None \<and> \<not> HasError (Append (Diagnostics tresp0) ds)
          \<and> \<not> isl (ParseInt (ValueString (OAuthTokenResourceModel.ID tstate))))"
proof -
  have a: "OAuthClientResource_Configure r \<lparr>ProviderData = None\<rparr> cresp = (r, cresp)"
    "OAuthTokenResource_Configure tr \<lparr>ProviderData = None\<rparr> cresp = (tr, cresp)"
    by (simp_all add: OAuthClientResource_Configure_def OAuthTokenResource_Configure_def)
  have b: "(OAuthClientResource_Create l r \<lparr>CreateRequest.Plan_Get = (ds, state)\<rparr> resp0 = Panic)
       = (OAuthClientResource.client r = None \<and> \<not> HasError (Append (Diagnostics resp0) ds))"
  proof (cases "OAuthClientResource.client r")
    case None
    then show ?thesis
      by (simp add: OAuthClientResource_Create_def Let_def nil_client_panics)
  next
    case (Some c)
    obtain a b sent where
      "CreateOAuthClient l (Some c)
         (ValueString (OAuthClientResourceModel.Name state))
         (ValueString (OAuthClientResourceModel.Identifier state))
         (ValueString (OAuthClientResourceModel.Kind state))
         (ValueString (OAuthClientResourceModel.Description state)) = Return ((a, b), sent)"
      and "(a, b) \<noteq> (None, None)"
      using CreateOAuthClient_returns [of l c
          "ValueString (OAuthClientResourceModel.Name state)"
          "ValueString (OAuthClientResourceModel.Identifier state)"
          "ValueString (OAuthClientResourceModel.Kind state)"
          "ValueString (OAuthClientResourceModel.Description state)"]
      by auto
    with Some show ?thesis
      by (cases a; cases b) (simp_all add: OAuthClientResource_Create_def Let_def)
  qed
  have c: "(OAuthClientResource_Read l r \<lparr>ReadRequest.State_Get = (ds, state)\<rparr> resp0 = Panic)
       = (OAuthClientResource.client r = None \<and> \<not> HasError (Append (Diagnostics resp0) ds)
          \<and> \<not> isl (ParseInt (ValueString (OAuthClientResourceModel.ID state))))"
  proof (cases "OAuthClientResource.client r")
    case None
    then show ?thesis
      by (simp add: OAuthClientResource_Read_def Let_def nil_client_panics split: sum.splits)
  next
    case (Some c)
    show ?thesis
    proof (cases "ParseInt (ValueString (OAuthClientResourceModel.ID state))")
      case (Inl e)
      then show ?thesis
        by (simp add: OAuthClientResource_Read_def Let_def)
    next
      case (Inr i)
      obtain a b sent where "ReadOAuthClient l (Some c) i = Return ((a, b), sent)"
        using ReadOAuthClient_returns [of l c i] by auto
      with Some Inr show ?thesis
        by (cases a; cases b) (simp_all add: OAuthClientResource_Read_def Let_def)
    qed
  qed
  have d: "(OAuthClientResource_Delete l r \<lparr>DeleteRequest.State_Get = (ds, state)\<rparr> resp0 = Panic)
       = (OAuthClientResource.client r = None \<and> \<not> HasError (Append (Diagnostics resp0) ds)
          \<and> \<not> isl (ParseInt (ValueString (OAuthClientResourceModel.ID state))))"
  proof (cases "OAuthClientResource.client r")
    case None
    then show ?thesis
      by (simp add: OAuthClientResource_Delete_def Let_def nil_client_panics split: sum.splits)
  next
    case (Some c)
    show ?thesis
    proof (cases "ParseInt (ValueString (OAuthClientResourceModel.ID state))")
      case (Inl e)
      then show ?thesis
        by (simp add: OAuthClientResource_Delete_def Let_def)
    next
      case (Inr i)
      obtain b sent where "DeleteOAuthClient l (Some c) i = Return (b, sent)"
        using DeleteOAuthClient_returns [of l c i] by auto
      with Some Inr show ?thesis
        by (cases b) (simp_all add: OAuthClientResource_Delete_def Let_def)
    qed
  qed
  have e: "(OAuthTokenResource_Create l tr \<lparr>CreateRequest.Plan_Get = (ds, tstate)\<rparr> tresp0 = Panic)
       = (OAuthTokenResource.client tr = None \<and> \<not> HasError (Append (Diagnostics tresp0) ds)
          \<and> \<not> isl (ParseInt (ValueString (OAuthTokenResourceModel.ClientID tstate))))"
  proof (cases "OAuthTokenResource.client tr")
    case None
    then show ?thesis
      by (simp add: OAuthTokenResource_Create_def Let_def nil_client_panics split: sum.splits)
  next
    case (Some c)
    show ?thesis
    proof (cases "ParseInt (ValueString (OAuthTokenResourceModel.ClientID tstate))")
      case (Inl e)
      then show ?thesis
        by (simp add: OAuthTokenResource_Create_def Let_def)
    next
      case (Inr ci)
      obtain a b sent where
        "CreateOAuthToken l (Some c) ci
           (Some (map ValueString (elems (OAuthTokenResourceModel.Scopes tstate))))
           (ValueString (OAuthTokenResourceModel.ExpiresAt tstate)) = Return ((a, b), sent)"
        and "(a, b) \<noteq> (None, None)"
        using CreateOAuthToken_returns [of l c ci
            "Some (map ValueString (elems (OAuthTokenResourceModel.Scopes tstate)))"
            "ValueString (OAuthTokenResourceModel.ExpiresAt tstate)"]
        by auto
      with Some Inr show ?thesis
        by (cases a; cases b) (simp_all add: OAuthTokenResource_Create_def Let_def)
    qed
  qed
  have f: "(OAuthTokenResource_Read l tr \<lparr>ReadRequest.State_Get = (ds, tstate)\<rparr> tresp0 = Panic)
       = (OAuthTokenResource.client tr = None \<and> \<not> HasError (Append (Diagnostics tresp0) ds)
          \<and> \<not> isl (ParseInt (ValueString (OAuthTokenResourceModel.ID tstate))))"
  proof (cases "OAuthTokenResource.client tr")
    case None
    then show ?thesis
      by (simp add: OAuthTokenResource_Read_def Let_def nil_client_panics split: sum.splits)
  next
    case (Some c)
    show ?thesis
    proof (cases "ParseInt (ValueString (OAuthTokenResourceModel.ID tstate))")
      case (Inl e)
      then show ?thesis
        by (simp add: OAuthTokenResource_Read_def Let_def)
    next
      case (Inr i)
      obtain a b sent where "ReadOAuthToken l (Some c) i = Return ((a, b), sent)"
        using ReadOAuthToken_returns [of l c i] by auto
      with Some Inr show ?thesis
        by (cases a; cases b) (simp_all add: OAuthTokenResource_Read_def Let_def)
    qed
  qed
  have g: "(OAuthTokenResource_Delete l tr \<lparr>DeleteRequest.State_Get = (ds, tstate)\<rparr> tresp0 = Panic)
       = (OAuthTokenResource.client tr = None \<and> \<not> HasError (Append (Diagnostics tresp0) ds)
          \<and> \<not> isl (ParseInt (ValueString (OAuthTokenResourceModel.ID tstate))))"
  proof (cases "OAuthTokenResource.client tr")
    case None
    then show ?thesis
      by (simp add: OAuthTokenResource_Delete_def Let_def nil_client_panics split: sum.splits)
  next
    case (Some c)
    show ?thesis
    proof (cases "ParseInt (ValueString (OAuthTokenResourceModel.ID tstate))")
      case (Inl e)
      then show ?thesis
        by (simp add: OAuthTokenResource_Delete_def Let_def)
    next
      case (Inr i)
      obtain b sent where "DeleteOAuthToken l (Some c) i = Return (b, sent)"
        using DeleteOAuthToken_returns [of l c i] by auto
      with Some Inr show ?thesis
        by (cases b) (simp_all add: OAuthTokenResource_Delete_def Let_def)
    qed
  qed
  from a b c d e f g show ?thesis by blast
qed

theorem nil_client_panics_at_the_call_witness:
  "OAuthClientResource_Configure NewOAuthClientResource \<lparr>ProviderData = None\<rparr>
       \<lparr>Diagnostics = []\<rparr> = (NewOAuthClientResource, \<lparr>Diagnostics = []\<rparr>)
   \<and> OAuthTokenResource_Configure NewOAuthTokenResource \<lparr>ProviderData = None\<rparr>
       \<lparr>Diagnostics = []\<rparr> = (NewOAuthTokenResource, \<lparr>Diagnostics = []\<rparr>)
   \<and> OAuthClientResource_Create (fixed_server 201 [] client_json) NewOAuthClientResource
       \<lparr>CreateRequest.Plan_Get = ([], client_plan)\<rparr> untracked = Panic
   \<and> OAuthClientResource_Read (fixed_server 200 [] client_json) NewOAuthClientResource
       \<lparr>ReadRequest.State_Get = ([], client_model ''42'')\<rparr> (tracked (client_model ''42''))
       = Panic
   \<and> OAuthClientResource_Delete (fixed_server 204 [] JNull) NewOAuthClientResource
       \<lparr>DeleteRequest.State_Get = ([], client_model ''42'')\<rparr> (tracked (client_model ''42''))
       = Panic
   \<and> OAuthTokenResource_Create (fixed_server 201 [] token_json) NewOAuthTokenResource
       \<lparr>CreateRequest.Plan_Get = ([], token_plan ''42'')\<rparr> untracked = Panic
   \<and> OAuthTokenResource_Read (fixed_server 200 [] token_json) NewOAuthTokenResource
       \<lparr>ReadRequest.State_Get = ([], token_model ''8'' ''42'')\<rparr>
       (tracked (token_model ''8'' ''42'')) = Panic
   \<and> OAuthTokenResource_Delete (fixed_server 204 [] JNull) NewOAuthTokenResource
       \<lparr>DeleteRequest.State_Get = ([], token_model ''8'' ''42'')\<rparr>
       (tracked (token_model ''8'' ''42'')) = Panic"
proof -
  note claim = nil_client_panics_at_the_call [where r = NewOAuthClientResource
      and tr = NewOAuthTokenResource and ds = "[]" and cresp = "\<lparr>Diagnostics = []\<rparr>"]
  have nil: "OAuthClientResource.client NewOAuthClientResource = None"
    "OAuthTokenResource.client NewOAuthTokenResource = None"
    by (simp_all add: NewOAuthClientResource_def NewOAuthTokenResource_def)
  have quiet:
    "\<not> HasError (Append (Diagnostics (untracked :: OAuthClientResourceModel Response)) [])"
    "\<not> HasError (Append (Diagnostics (untracked :: OAuthTokenResourceModel Response)) [])"
    "\<not> HasError (Append (Diagnostics (tracked (client_model ''42''))) [])"
    "\<not> HasError (Append (Diagnostics (tracked (token_model ''8'' ''42''))) [])"
    by (simp_all add: untracked_def tracked_def HasError_def)
  have p: "\<not> isl (ParseInt (ValueString (OAuthClientResourceModel.ID (client_model ''42''))))"
    "\<not> isl (ParseInt (ValueString (OAuthTokenResourceModel.ClientID (token_plan ''42''))))"
    "\<not> isl (ParseInt (ValueString (OAuthTokenResourceModel.ID (token_model ''8'' ''42''))))"
    by (simp_all add: example_defs parse_defs)
  from claim [where state = client_plan and tstate = "token_plan ''42''"
      and ?resp0.0 = untracked and ?tresp0.0 = untracked] nil quiet p
  have a: "OAuthClientResource_Configure NewOAuthClientResource \<lparr>ProviderData = None\<rparr>
       \<lparr>Diagnostics = []\<rparr> = (NewOAuthClientResource, \<lparr>Diagnostics = []\<rparr>)"
    "OAuthTokenResource_Configure NewOAuthTokenResource \<lparr>ProviderData = None\<rparr>
       \<lparr>Diagnostics = []\<rparr> = (NewOAuthTokenResource, \<lparr>Diagnostics = []\<rparr>)"
    "OAuthClientResource_Create l NewOAuthClientResource
       \<lparr>CreateRequest.Plan_Get = ([], client_plan)\<rparr> untracked = Panic"
    "OAuthTokenResource_Create l NewOAuthTokenResource
       \<lparr>CreateRequest.Plan_Get = ([], token_plan ''42'')\<rparr> untracked = Panic" for l
    by blast+
  from claim [where state = "client_model ''42''" and tstate = "token_model ''8'' ''42''"
      and ?resp0.0 = "tracked (client_model ''42'')"
      and ?tresp0.0 = "tracked (token_model ''8'' ''42'')"] nil quiet p
  have b: "OAuthClientResource_Read l NewOAuthClientResource
       \<lparr>ReadRequest.State_Get = ([], client_model ''42'')\<rparr> (tracked (client_model ''42''))
       = Panic"
    "OAuthClientResource_Delete l NewOAuthClientResource
       \<lparr>DeleteRequest.State_Get = ([], client_model ''42'')\<rparr> (tracked (client_model ''42''))
       = Panic"
    "OAuthTokenResource_Read l NewOAuthTokenResource
       \<lparr>ReadRequest.State_Get = ([], token_model ''8'' ''42'')\<rparr>
       (tracked (token_model ''8'' ''42'')) = Panic"
    "OAuthTokenResource_Delete l NewOAuthTokenResource
       \<lparr>DeleteRequest.State_Get = ([], token_model ''8'' ''42'')\<rparr>
       (tracked (token_model ''8'' ''42'')) = Panic" for l
    by blast+
  from a b show ?thesis by blast
qed

text \<open>
  C10 as the spec words it fails: a resource configured with nil provider data, asked
  to read a state whose id is \<^verbatim>\<open>abc\<close>, returns with the diagnostic of the parse failure
  and never calls the API client.
\<close>

theorem nil_client_unparsable_id_counterexample:
  "OAuthClientResource_Read (fixed_server 200 [] client_json)
       (fst (OAuthClientResource_Configure NewOAuthClientResource \<lparr>ProviderData = None\<rparr>
              \<lparr>Diagnostics = []\<rparr>))
       \<lparr>ReadRequest.State_Get = ([], client_model ''abc'')\<rparr> (tracked (client_model ''abc''))
     \<noteq> Panic
   \<and> diagnosed (OAuthClientResource_Read (fixed_server 200 [] client_json)
       (fst (OAuthClientResource_Configure NewOAuthClientResource \<lparr>ProviderData = None\<rparr>
              \<lparr>Diagnostics = []\<rparr>))
       \<lparr>ReadRequest.State_Get = ([], client_model ''abc'')\<rparr> (tracked (client_model ''abc'')))"
  by (simp add: OAuthClientResource_Read_def OAuthClientResource_Configure_def
      NewOAuthClientResource_def Let_def example_defs parse_defs HasError_def AddError_def
      ErrorDiagnostic_def)

end
